theory Spec2Isabelle
  imports Complex_Main "HOL-Library.Word"
begin

section \<open>Python values used by app.py\<close>

text \<open>
  A Python \<open>str\<close> is a sequence of Unicode code points, so it is a list of naturals:
  slicing, \<open>len\<close> and \<open>strip\<close> count code points, as Python does. \<open>bytes\<close> are
  lists of 8-bit words. ASCII literals of the source are written with \<open>lit\<close>.
\<close>

type_synonym ustr = "nat list"

type_synonym byte = "8 word"

definition lit :: "string \<Rightarrow> ustr" where
  "lit s = map of_char s"

text \<open>
  What \<open>json.loads\<close> and \<open>request.get_json\<close> produce: \<open>None\<close>, \<open>bool\<close>, \<open>int\<close>,
  \<open>float\<close>, \<open>str\<close>, \<open>list\<close> and \<open>dict\<close> with string keys (in insertion order).
  A float is represented by the rational it denotes; the non-finite floats behave as
  any non-zero float in every operation the program applies.
\<close>

datatype json =
    JNull
  | JBool bool
  | JInt int
  | JFloat rat
  | JStr ustr
  | JList "json list"
  | JDict "(ustr \<times> json) list"

datatype py_error =
    TypeError | AttributeError | KeyError | IndexError | ValueError | UnicodeEncodeError

text \<open>Running a sequence of statements, the first exception raised leaves the sequence.\<close>

definition bind_exn :: "py_error + 'a \<Rightarrow> ('a \<Rightarrow> py_error + 'b) \<Rightarrow> py_error + 'b" where
  "bind_exn m f = (case m of Inl e \<Rightarrow> Inl e | Inr x \<Rightarrow> f x)"

text \<open>Truth value testing (\<open>if x\<close>, \<open>x or y\<close>, \<open>not x\<close>).\<close>

fun truthy :: "json \<Rightarrow> bool" where
  "truthy JNull = False"
| "truthy (JBool b) = b"
| "truthy (JInt i) = (i \<noteq> 0)"
| "truthy (JFloat q) = (q \<noteq> 0)"
| "truthy (JStr s) = (s \<noteq> [])"
| "truthy (JList xs) = (xs \<noteq> [])"
| "truthy (JDict kvs) = (kvs \<noteq> [])"

definition py_or :: "json \<Rightarrow> json \<Rightarrow> json" where
  "py_or a b = (if truthy a then a else b)"

text \<open>\<open>x.get(k, d)\<close>: only a dict has the method.\<close>

fun py_get :: "json \<Rightarrow> ustr \<Rightarrow> json \<Rightarrow> py_error + json" where
  "py_get (JDict kvs) k d = Inr (case map_of kvs k of None \<Rightarrow> d | Some v \<Rightarrow> v)"
| "py_get _ k d = Inl AttributeError"

text \<open>\<open>x[k]\<close> with a string key.\<close>

fun py_getitem :: "json \<Rightarrow> ustr \<Rightarrow> py_error + json" where
  "py_getitem (JDict kvs) k = (case map_of kvs k of None \<Rightarrow> Inl KeyError | Some v \<Rightarrow> Inr v)"
| "py_getitem _ k = Inl TypeError"

text \<open>
  \<open>x[0]\<close>: the first element of a list, the first character of a string (as a string);
  a dict decoded from JSON has string keys only, so the key \<open>0\<close> is missing.
\<close>

fun py_getitem0 :: "json \<Rightarrow> py_error + json" where
  "py_getitem0 (JList []) = Inl IndexError"
| "py_getitem0 (JList (x # xs)) = Inr x"
| "py_getitem0 (JStr []) = Inl IndexError"
| "py_getitem0 (JStr (c # cs)) = Inr (JStr [c])"
| "py_getitem0 (JDict kvs) = Inl KeyError"
| "py_getitem0 _ = Inl TypeError"

text \<open>\<open>x[:n]\<close>: strings and lists can be sliced.\<close>

fun py_slice_to :: "nat \<Rightarrow> json \<Rightarrow> py_error + json" where
  "py_slice_to n (JStr s) = Inr (JStr (take n s))"
| "py_slice_to n (JList xs) = Inr (JList (take n xs))"
| "py_slice_to n _ = Inl TypeError"

text \<open>
  \<open>str.isspace\<close> of one code point (the whitespace table of CPython) and
  \<open>str.strip()\<close> without arguments.
\<close>

definition isspace :: "nat \<Rightarrow> bool" where
  "isspace c \<longleftrightarrow>
     (0x9 \<le> c \<and> c \<le> 0xD) \<or> (0x1C \<le> c \<and> c \<le> 0x20) \<or> c = 0x85 \<or> c = 0xA0 \<or>
     c = 0x1680 \<or> (0x2000 \<le> c \<and> c \<le> 0x200A) \<or> c = 0x2028 \<or> c = 0x2029 \<or>
     c = 0x202F \<or> c = 0x205F \<or> c = 0x3000"

definition strip :: "ustr \<Rightarrow> ustr" where
  "strip s = rev (dropWhile isspace (rev (dropWhile isspace s)))"

fun py_strip :: "json \<Rightarrow> py_error + ustr" where
  "py_strip (JStr s) = Inr (strip s)"
| "py_strip _ = Inl AttributeError"

definition startswith :: "ustr \<Rightarrow> ustr \<Rightarrow> bool" where
  "startswith s p \<longleftrightarrow> take (length p) s = p"

text \<open>
  \<open>for x in v\<close>: a list gives its elements, a string its characters, a dict its keys;
  nothing else the decoder produces is iterable.
\<close>

fun py_iter :: "json \<Rightarrow> py_error + json list" where
  "py_iter (JList xs) = Inr xs"
| "py_iter (JStr s) = Inr (map (\<lambda>c. JStr [c]) s)"
| "py_iter (JDict kvs) = Inr (map (\<lambda>kv. JStr (fst kv)) kvs)"
| "py_iter _ = Inl TypeError"

text \<open>
  A \<open>for\<close> loop whose body appends to \<open>messages\<close>: \<open>body x\<close> is what one iteration
  appends, or the exception it raises (which leaves the loop and the function).
\<close>

fun for_append :: "('a \<Rightarrow> py_error + 'b list) \<Rightarrow> 'a list \<Rightarrow> py_error + 'b list" where
  "for_append body [] = Inr []"
| "for_append body (x # xs) =
     (case body x of
        Inl e \<Rightarrow> Inl e
      | Inr ys \<Rightarrow> (case for_append body xs of Inl e \<Rightarrow> Inl e | Inr zs \<Rightarrow> Inr (ys @ zs)))"

text \<open>\<open>s.encode("utf-8")\<close>: surrogate code points cannot be encoded.\<close>

definition utf8_code_point :: "nat \<Rightarrow> byte list option" where
  "utf8_code_point c =
     (if c < 0x80 then Some [of_nat c]
      else if c < 0x800 then Some [of_nat (0xC0 + c div 0x40), of_nat (0x80 + c mod 0x40)]
      else if 0xD800 \<le> c \<and> c \<le> 0xDFFF then None
      else if c < 0x10000 then
        Some [of_nat (0xE0 + c div 0x1000), of_nat (0x80 + c div 0x40 mod 0x40),
              of_nat (0x80 + c mod 0x40)]
      else if c < 0x110000 then
        Some [of_nat (0xF0 + c div 0x40000), of_nat (0x80 + c div 0x1000 mod 0x40),
              of_nat (0x80 + c div 0x40 mod 0x40), of_nat (0x80 + c mod 0x40)]
      else None)"

fun encode_utf8 :: "ustr \<Rightarrow> py_error + byte list" where
  "encode_utf8 [] = Inr []"
| "encode_utf8 (c # cs) =
     (case utf8_code_point c of
        None \<Rightarrow> Inl UnicodeEncodeError
      | Some bs \<Rightarrow> (case encode_utf8 cs of Inl e \<Rightarrow> Inl e | Inr rest \<Rightarrow> Inr (bs @ rest)))"

fun py_encode :: "json \<Rightarrow> py_error + byte list" where
  "py_encode (JStr s) = encode_utf8 s"
| "py_encode _ = Inl AttributeError"

section \<open>The environment of the relay\<close>

text \<open>
  The request handed to \<open>requests.post\<close> and what comes back: a
  \<open>RequestException\<close> with its text, or a response of which the program reads
  \<open>status_code\<close>, \<open>json()\<close> (\<open>None\<close> when it raises), \<open>text\<close> and
  \<open>iter_lines(decode_unicode=True)\<close>.
\<close>

record http_request =
  url :: ustr
  headers :: "(ustr \<times> ustr) list"
  payload :: json
  stream :: bool
  timeout :: int

record reply =
  status_code :: int
  r_json :: "json option"
  r_text :: ustr
  r_lines :: "ustr list"

datatype post_result = RequestException ustr | Reply reply

text \<open>
  The module-level configuration (\<open>GROQ_API_KEY\<close>, \<open>MODEL\<close>), the upstream service
  behind \<open>requests.post\<close> and the library function \<open>json.loads\<close> (\<open>None\<close> when it
  raises) are parameters of the model.
\<close>

record env =
  GROQ_API_KEY :: ustr
  MODEL :: ustr
  requests_post :: "http_request \<Rightarrow> post_result"
  json_loads :: "ustr \<Rightarrow> json option"

definition TEMPERATURE :: rat where
  "TEMPERATURE = 2 / 10"

definition MAX_TOKENS :: int where
  "MAX_TOKENS = 800"

definition BASE_URL :: ustr where
  "BASE_URL = lit ''https://api.groq.com/openai/v1''"

text \<open>
  A Flask response: \<open>Response(status=s)\<close>, \<open>Response(json.dumps(body), status=s,
  mimetype="application/json")\<close>, or \<open>Response(generate(), mimetype="text/plain")\<close>
  with the chunks the generator yields. A handler returns one or raises; the run of a
  handler also records the upstream requests it made. The headers that
  \<open>add_cors_headers\<close> puts on every response are left out, and so is a failure of
  the upstream connection while the body is read: \<open>iter_lines\<close> is the list of the
  text lines it gives.
\<close>

datatype response =
    Response_empty int
  | Response_json int json
  | Response_stream "byte list list"

datatype outcome = Raised py_error | Returned response

type_synonym run = "http_request list \<times> outcome"

datatype http_method = POST | OPTIONS

section \<open>stream\_completion\<close>

text \<open>\<open>event["choices"][0]["delta"].get("content", "")\<close>\<close>

definition event_delta :: "json \<Rightarrow> py_error + json" where
  "event_delta event =
     bind_exn (py_getitem event (lit ''choices'')) (\<lambda>choices.
     bind_exn (py_getitem0 choices) (\<lambda>choice.
     bind_exn (py_getitem choice (lit ''delta'')) (\<lambda>d.
       py_get d (lit ''content'') (JStr []))))"

text \<open>The body of the \<open>try\<close> in \<open>generate\<close>: the chunk to yield, if any.\<close>

definition frame_chunk :: "(ustr \<Rightarrow> json option) \<Rightarrow> ustr \<Rightarrow> py_error + byte list option" where
  "frame_chunk loads data_str =
     (case loads data_str of
        None \<Rightarrow> Inl ValueError
      | Some event \<Rightarrow>
          bind_exn (event_delta event) (\<lambda>delta.
            if truthy delta
            then bind_exn (py_encode delta) (\<lambda>bs. Inr (Some bs))
            else Inr None))"

fun generate :: "(ustr \<Rightarrow> json option) \<Rightarrow> ustr list \<Rightarrow> byte list list" where
  "generate loads [] = []"
| "generate loads (line # rest) =
     (if line = [] then generate loads rest
      else if startswith line (lit ''data: '') then
        (let data_str = strip (drop (length (lit ''data: '')) line) in
         if data_str = lit ''[DONE]'' then []
         else (case frame_chunk loads data_str of
                 Inr (Some chunk) \<Rightarrow> chunk # generate loads rest
               | Inr None \<Rightarrow> generate loads rest
               | Inl e \<Rightarrow> generate loads rest))
      else generate loads rest)"

definition error_json :: "json \<Rightarrow> json" where
  "error_json v = JDict [(lit ''error'', v)]"

text \<open>The body relayed for a response whose status is not 200.\<close>

definition is_nested_error :: "json \<Rightarrow> bool" where
  "is_nested_error body \<longleftrightarrow>
     (case body of
        JDict kvs \<Rightarrow>
          (case map_of kvs (lit ''error'') of
             Some (JDict evs) \<Rightarrow> map_of evs (lit ''message'') \<noteq> None
           | _ \<Rightarrow> False)
      | _ \<Rightarrow> False)"

definition nested_message :: "json \<Rightarrow> json" where
  "nested_message body =
     (case body of
        JDict kvs \<Rightarrow>
          (case map_of kvs (lit ''error'') of
             Some (JDict evs) \<Rightarrow> (case map_of evs (lit ''message'') of Some m \<Rightarrow> m | None \<Rightarrow> JNull)
           | _ \<Rightarrow> JNull)
      | _ \<Rightarrow> JNull)"

definition error_body :: "reply \<Rightarrow> json" where
  "error_body r =
     (case r_json r of
        Some body \<Rightarrow> if is_nested_error body then error_json (nested_message body) else body
      | None \<Rightarrow> error_json (JStr (if r_text r \<noteq> [] then r_text r
                                   else lit ''Unknown error from Groq'')))"

definition upstream_request :: "env \<Rightarrow> json \<Rightarrow> http_request" where
  "upstream_request env messages =
     \<lparr>url = BASE_URL @ lit ''/chat/completions'',
      headers = [(lit ''Authorization'', lit ''Bearer '' @ GROQ_API_KEY env),
                 (lit ''Content-Type'', lit ''application/json'')],
      payload = JDict [(lit ''model'', JStr (MODEL env)),
                       (lit ''messages'', messages),
                       (lit ''temperature'', JFloat TEMPERATURE),
                       (lit ''max_tokens'', JInt MAX_TOKENS),
                       (lit ''stream'', JBool True)],
      stream = True,
      timeout = 300\<rparr>"

definition stream_completion :: "env \<Rightarrow> json \<Rightarrow> run" where
  "stream_completion env messages =
     (let req = upstream_request env messages in
      case requests_post env req of
        RequestException e \<Rightarrow>
          ([req], Returned (Response_json 502
             (error_json (JStr (lit ''Network error contacting Groq: '' @ e)))))
      | Reply r \<Rightarrow>
          if status_code r \<noteq> 200
          then ([req], Returned (Response_json (status_code r) (error_body r)))
          else ([req], Returned (Response_stream (generate (json_loads env) (r_lines r)))))"

section \<open>The three endpoints\<close>

definition message :: "json \<Rightarrow> json \<Rightarrow> json" where
  "message role content = JDict [(lit ''role'', role), (lit ''content'', content)]"

definition key_missing :: run where
  "key_missing = ([], Returned (Response_json 500 (error_json (JStr (lit ''GROQ_API_KEY missing'')))))"

text \<open>
  Every handler takes the request method and the value of
  \<open>request.get_json(force=True, silent=True)\<close> (\<open>JNull\<close> for \<open>None\<close>);
  \<open>request_data\<close> is \<open>data\<close>, that value \<open>or {}\<close>.
\<close>

definition request_data :: "json \<Rightarrow> json" where
  "request_data body = py_or body (JDict [])"

definition chat :: "env \<Rightarrow> http_method \<Rightarrow> json \<Rightarrow> run" where
  "chat env method body =
     (if method = OPTIONS then ([], Returned (Response_empty 204))
      else if GROQ_API_KEY env = [] then key_missing
      else (case py_get (request_data body) (lit ''messages'') (JList []) of
              Inl e \<Rightarrow> ([], Raised e)
            | Inr messages \<Rightarrow> stream_completion env messages))"

text \<open>The body of the loop over \<open>history\<close>, the same in both branch handlers.\<close>

definition history_entry :: "json \<Rightarrow> json list" where
  "history_entry m =
     (case m of
        JDict kvs \<Rightarrow>
          (case (map_of kvs (lit ''role''), map_of kvs (lit ''content'')) of
             (Some r, Some c) \<Rightarrow> [message r c]
           | _ \<Rightarrow> [])
      | _ \<Rightarrow> [])"

definition selection_context :: "ustr \<Rightarrow> json" where
  "selection_context selection =
     message (JStr (lit ''user'')) (JStr (lit ''Selected Context:'' @ [10] @ selection))"

definition is_str :: "json \<Rightarrow> bool" where
  "is_str v \<longleftrightarrow> (case v of JStr s \<Rightarrow> True | _ \<Rightarrow> False)"

definition role_ok :: "json \<Rightarrow> bool" where
  "role_ok role \<longleftrightarrow> role = JStr (lit ''user'') \<or> role = JStr (lit ''assistant'')"

text \<open>The body of the loop over \<open>popup_turns\<close> in \<open>branch\<close>.\<close>

definition branch_turn :: "json \<Rightarrow> py_error + json list" where
  "branch_turn t =
     bind_exn (py_get t (lit ''role'') JNull) (\<lambda>role.
     bind_exn (py_get t (lit ''content'') JNull) (\<lambda>c.
       let content = py_or c (JStr []) in
       Inr (if role_ok role \<and> is_str content then [message role content] else [])))"

definition bad_request :: "string \<Rightarrow> response" where
  "bad_request msg = Response_json 400 (error_json (JStr (lit msg)))"

text \<open>
  \<open>branch\<close> after the two guards, up to the call of \<open>stream_completion\<close>: an
  exception, an early response, or the assembled \<open>messages\<close>.
\<close>

definition branch_messages :: "json \<Rightarrow> py_error + (response + json list)" where
  "branch_messages data =
     bind_exn (py_get data (lit ''selection'') JNull) (\<lambda>sel.
     bind_exn (py_slice_to 3000 (py_or sel (JStr []))) (\<lambda>selection.
     bind_exn (py_get data (lit ''history'') JNull) (\<lambda>hist.
     let history = py_or hist (JList []) in
     bind_exn (py_get data (lit ''question'') JNull) (\<lambda>q.
     bind_exn (py_strip (py_or q (JStr []))) (\<lambda>question.
     bind_exn (py_get data (lit ''popup_turns'') JNull) (\<lambda>pt.
     let popup_turns = py_or pt (JList []) in
     bind_exn (py_strip selection) (\<lambda>stripped.
       if stripped = [] then Inr (Inl (bad_request ''selection required''))
       else
         bind_exn (py_iter history) (\<lambda>hs.
         let messages = concat (map history_entry hs)
                        @ [selection_context (case selection of JStr s \<Rightarrow> s | _ \<Rightarrow> [])] in
         if truthy popup_turns then
           bind_exn (py_iter popup_turns) (\<lambda>ts.
           bind_exn (for_append branch_turn ts) (\<lambda>turns.
             Inr (Inr (messages @ turns))))
         else if question \<noteq> [] then
           Inr (Inr (messages @ [message (JStr (lit ''user'')) (JStr question)]))
         else Inr (Inl (bad_request ''Provide either popup_turns or question''))))))))))"

definition branch :: "env \<Rightarrow> http_method \<Rightarrow> json \<Rightarrow> run" where
  "branch env method body =
     (if method = OPTIONS then ([], Returned (Response_empty 204))
      else if GROQ_API_KEY env = [] then key_missing
      else (case branch_messages (request_data body) of
              Inl e \<Rightarrow> ([], Raised e)
            | Inr (Inl resp) \<Rightarrow> ([], Returned resp)
            | Inr (Inr messages) \<Rightarrow> stream_completion env (JList messages)))"

text \<open>The body of the loop over \<open>popup_turns\<close> in \<open>branch_summary\<close>.\<close>

definition summary_turn :: "json \<Rightarrow> py_error + json list" where
  "summary_turn t =
     bind_exn (py_get t (lit ''role'') JNull) (\<lambda>role.
     bind_exn (py_get t (lit ''content'') JNull) (\<lambda>c.
       let content = py_or c (JStr []) in
       Inr (case content of
              JStr s \<Rightarrow>
                if role_ok role then
                  [message (JStr (lit ''user''))
                     (JStr ((if role = JStr (lit ''user'') then lit ''User:'' else lit ''Assistant:'')
                            @ lit '' '' @ s))]
                else []
            | _ \<Rightarrow> [])))"

text \<open>The fixed instruction; its second line has an en dash (U+2013) between 5 and 8.\<close>

definition summary_instruction :: ustr where
  "summary_instruction =
     lit ''Write a concise summary of the branch conversation for a student.'' @ [10]
     @ lit ''- 5'' @ [0x2013] @ lit ''8 bullet points'' @ [10]
     @ lit ''- 1-line key takeaway at the end'' @ [10]
     @ lit ''- Do NOT repeat the full selected text; focus on the conversation''
     @ [39] @ lit ''s conclusions and clarifications.''"

definition transcript_header :: json where
  "transcript_header =
     message (JStr (lit ''user'')) (JStr (lit ''Below is the branch conversation transcript:''))"

definition summary_messages :: "json \<Rightarrow> py_error + (response + json list)" where
  "summary_messages data =
     bind_exn (py_get data (lit ''selection'') JNull) (\<lambda>sel.
     bind_exn (py_slice_to 3000 (py_or sel (JStr []))) (\<lambda>selection.
     bind_exn (py_get data (lit ''popup_turns'') JNull) (\<lambda>pt.
     let popup_turns = py_or pt (JList []) in
     bind_exn (py_get data (lit ''history'') JNull) (\<lambda>hist.
     let history = py_or hist (JList []) in
     bind_exn (py_strip selection) (\<lambda>stripped.
       if stripped = [] then Inr (Inl (bad_request ''selection required''))
       else
         bind_exn (py_iter history) (\<lambda>hs.
         let messages = concat (map history_entry hs)
                        @ [selection_context (case selection of JStr s \<Rightarrow> s | _ \<Rightarrow> [])] in
         bind_exn
           (if truthy popup_turns then
              bind_exn (py_iter popup_turns) (\<lambda>ts.
              bind_exn (for_append summary_turn ts) (\<lambda>turns.
                Inr (messages @ [transcript_header] @ turns)))
            else Inr messages) (\<lambda>messages.
         Inr (Inr (messages @ [message (JStr (lit ''user'')) (JStr summary_instruction)])))))))))"

definition branch_summary :: "env \<Rightarrow> http_method \<Rightarrow> json \<Rightarrow> run" where
  "branch_summary env method body =
     (if method = OPTIONS then ([], Returned (Response_empty 204))
      else if GROQ_API_KEY env = [] then key_missing
      else (case summary_messages (request_data body) of
              Inl e \<Rightarrow> ([], Raised e)
            | Inr (Inl resp) \<Rightarrow> ([], Returned resp)
            | Inr (Inr messages) \<Rightarrow> stream_completion env (JList messages)))"

section \<open>Observations on the decoder and the relay\<close>

text \<open>
  The payload of a frame (\<open>line[len("data: "):].strip()\<close>), the frames that end the
  stream, the frames whose \<open>try\<close> body raises, and what one line makes the generator
  yield.
\<close>

definition data_payload :: "ustr \<Rightarrow> ustr" where
  "data_payload line = strip (drop (length (lit ''data: '')) line)"

definition is_done :: "ustr \<Rightarrow> bool" where
  "is_done line \<longleftrightarrow> startswith line (lit ''data: '') \<and> data_payload line = lit ''[DONE]''"

definition malformed :: "(ustr \<Rightarrow> json option) \<Rightarrow> ustr \<Rightarrow> bool" where
  "malformed loads line \<longleftrightarrow>
     startswith line (lit ''data: '') \<and> data_payload line \<noteq> lit ''[DONE]'' \<and>
     (case frame_chunk loads (data_payload line) of Inl e \<Rightarrow> True | Inr c \<Rightarrow> False)"

definition emitted :: "(ustr \<Rightarrow> json option) \<Rightarrow> ustr \<Rightarrow> byte list list" where
  "emitted loads line =
     (if startswith line (lit ''data: '') then
        (case frame_chunk loads (data_payload line) of Inr (Some chunk) \<Rightarrow> [chunk] | _ \<Rightarrow> [])
      else [])"

text \<open>What a caller can observe of a response.\<close>

definition streamed_bytes :: "response \<Rightarrow> byte list" where
  "streamed_bytes resp = (case resp of Response_stream chunks \<Rightarrow> concat chunks | _ \<Rightarrow> [])"

definition is_json_response :: "response \<Rightarrow> bool" where
  "is_json_response resp \<longleftrightarrow> (case resp of Response_json s b \<Rightarrow> True | _ \<Rightarrow> False)"

definition is_stream_response :: "response \<Rightarrow> bool" where
  "is_stream_response resp \<longleftrightarrow> (case resp of Response_stream chunks \<Rightarrow> True | _ \<Rightarrow> False)"

definition upstream_ok :: "post_result \<Rightarrow> bool" where
  "upstream_ok up \<longleftrightarrow> (case up of Reply r \<Rightarrow> status_code r = 200 | RequestException e \<Rightarrow> False)"

text \<open>
  The message of an upstream error body of the shape \<open>{"error": {"message": m}}\<close>,
  the error body as the specification words it (the raw text wherever the body has
  another shape) and the error body the relay sends.
\<close>

fun nested_message_of :: "json \<Rightarrow> json option" where
  "nested_message_of (JDict kvs) =
     (case map_of kvs (lit ''error'') of Some (JDict evs) \<Rightarrow> map_of evs (lit ''message'') | _ \<Rightarrow> None)"
| "nested_message_of _ = None"

definition claimed_error_body :: "reply \<Rightarrow> json" where
  "claimed_error_body r =
     (case r_json r of
        Some body \<Rightarrow> (case nested_message_of body of
                        Some m \<Rightarrow> error_json m
                      | None \<Rightarrow> error_json (JStr (r_text r)))
      | None \<Rightarrow> error_json (JStr (r_text r)))"

definition relayed_error_body :: "reply \<Rightarrow> json" where
  "relayed_error_body r =
     (case r_json r of
        Some body \<Rightarrow> (case nested_message_of body of Some m \<Rightarrow> error_json m | None \<Rightarrow> body)
      | None \<Rightarrow> if r_text r = [] then error_json (JStr (lit ''Unknown error from Groq''))
                else error_json (JStr (r_text r)))"

section \<open>Example data\<close>

text \<open>
  Upstream frames and replies used at concrete inputs. \<open>example_loads\<close> stands for
  \<open>json.loads\<close> on the three well-formed payloads below and rejects every other
  string; the third payload is JSON whose content is the escape of the lone surrogate
  U+D800, which \<open>json.loads\<close> decodes to a string of that one code point.
\<close>

definition ascii_bytes :: "string \<Rightarrow> byte list" where
  "ascii_bytes s = map of_char s"

definition hi_frame :: ustr where
  \<open>hi_frame = lit ''data: {"choices":[{"delta":{"content":"Hi"}}]}''\<close>

definition there_frame :: ustr where
  \<open>there_frame = lit ''data: {"choices":[{"delta":{"content":" there"}}]}''\<close>

definition done_frame :: ustr where
  "done_frame = lit ''data: [DONE]''"

definition bad_frame :: ustr where
  \<open>bad_frame = lit ''data: {"choices":[{"delta"''\<close>

definition surrogate_frame :: ustr where
  \<open>surrogate_frame =
     lit ''data: {"choices":[{"delta":{"content":"'' @ [0x5C] @ lit ''ud800"}}]}''\<close>

definition content_event :: "ustr \<Rightarrow> json" where
  "content_event s =
     JDict [(lit ''choices'', JList [JDict [(lit ''delta'', JDict [(lit ''content'', JStr s)])]])]"

definition example_loads :: "ustr \<Rightarrow> json option" where
  "example_loads s =
     (if s = data_payload hi_frame then Some (content_event (lit ''Hi''))
      else if s = data_payload there_frame then Some (content_event (lit '' there''))
      else if s = data_payload surrogate_frame then Some (content_event [0xD800])
      else None)"

definition example_env :: "post_result \<Rightarrow> env" where
  "example_env up =
     \<lparr>GROQ_API_KEY = lit ''gsk'', MODEL = lit ''llama-3.3-70b-versatile'',
      requests_post = (\<lambda>req. up), json_loads = example_loads\<rparr>"

definition rate_limited :: reply where
  \<open>rate_limited =
     \<lparr>status_code = 429,
      r_json = Some (JDict [(lit ''error'', JDict [(lit ''message'', JStr (lit ''rate limited''))])]),
      r_text = lit ''{"error":{"message":"rate limited"}}'',
      r_lines = [lit ''{"error":{"message":"rate limited"}}'']\<rparr>\<close>

definition other_shape :: reply where
  \<open>other_shape =
     \<lparr>status_code = 500,
      r_json = Some (JDict [(lit ''detail'', JStr (lit ''boom''))]),
      r_text = lit ''{"detail":"boom"}'',
      r_lines = [lit ''{"detail":"boom"}'']\<rparr>\<close>

definition empty_body :: reply where
  "empty_body = \<lparr>status_code = 503, r_json = None, r_text = [], r_lines = []\<rparr>"

section \<open>Observations on the requests and the assembled messages\<close>

text \<open>
  \<open>field data k\<close> is \<open>data.get(k)\<close> of a dict; the next four are the values the
  branch handlers read from the request (\<open>data.get("selection") or ""\<close> and so on).
\<close>

definition field :: "json \<Rightarrow> string \<Rightarrow> json" where
  "field data k =
     (case data of
        JDict kvs \<Rightarrow> (case map_of kvs (lit k) of Some v \<Rightarrow> v | None \<Rightarrow> JNull)
      | _ \<Rightarrow> JNull)"

definition selection_of :: "json \<Rightarrow> json" where
  "selection_of data = py_or (field data ''selection'') (JStr [])"

definition question_of :: "json \<Rightarrow> json" where
  "question_of data = py_or (field data ''question'') (JStr [])"

definition history_of :: "json \<Rightarrow> json" where
  "history_of data = py_or (field data ''history'') (JList [])"

definition popup_turns_of :: "json \<Rightarrow> json" where
  "popup_turns_of data = py_or (field data ''popup_turns'') (JList [])"

definition is_dict :: "json \<Rightarrow> bool" where
  "is_dict v \<longleftrightarrow> (case v of JDict kvs \<Rightarrow> True | _ \<Rightarrow> False)"

definition str_of :: "json \<Rightarrow> ustr" where
  "str_of v = (case v of JStr s \<Rightarrow> s | _ \<Rightarrow> [])"

text \<open>
  The assembled list in the words of the specification: the well-formed history entries
  (objects with a role and a content), copied in order; the popup turns that are
  well-formed (an object whose role is user or assistant and whose content is a string,
  or is missing or falsy and then taken as the empty string), forwarded as they are by
  \<open>branch\<close> and re-framed with a \<open>User:\<close> or \<open>Assistant:\<close> prefix under the
  role user by \<open>branch_summary\<close>; and the whole list of \<open>branch_summary\<close>.
\<close>

definition well_formed_entry :: "json \<Rightarrow> bool" where
  "well_formed_entry m \<longleftrightarrow>
     (case m of
        JDict kvs \<Rightarrow> map_of kvs (lit ''role'') \<noteq> None \<and> map_of kvs (lit ''content'') \<noteq> None
      | _ \<Rightarrow> False)"

definition entry_message :: "json \<Rightarrow> json" where
  "entry_message m = message (field m ''role'') (field m ''content'')"

definition well_formed_turn :: "json \<Rightarrow> bool" where
  "well_formed_turn t \<longleftrightarrow>
     is_dict t \<and> role_ok (field t ''role'') \<and> is_str (py_or (field t ''content'') (JStr []))"

definition forwarded_turn :: "json \<Rightarrow> json" where
  "forwarded_turn t = message (field t ''role'') (py_or (field t ''content'') (JStr []))"

definition reframed_turn :: "json \<Rightarrow> json" where
  "reframed_turn t =
     message (JStr (lit ''user''))
       (JStr ((if field t ''role'' = JStr (lit ''user'') then lit ''User:'' else lit ''Assistant:'')
              @ lit '' '' @ str_of (py_or (field t ''content'') (JStr []))))"

definition summary_spec :: "json list \<Rightarrow> ustr \<Rightarrow> json list \<Rightarrow> json list" where
  "summary_spec hs sel ts =
     map entry_message (filter well_formed_entry hs)
     @ [selection_context sel]
     @ (if ts = [] then [] else transcript_header # map reframed_turn (filter well_formed_turn ts))
     @ [message (JStr (lit ''user'')) (JStr summary_instruction)]"

section \<open>Example requests\<close>

definition str :: "string \<Rightarrow> json" where
  "str s = JStr (lit s)"

definition ok_reply :: reply where
  "ok_reply = \<lparr>status_code = 200, r_json = None, r_text = [],
                r_lines = [hi_frame, there_frame, done_frame]\<rparr>"

definition long_blank_selection :: ustr where
  "long_blank_selection = replicate 3000 0x20 @ lit ''x''"

definition blank_with_number :: json where
  "blank_with_number = JDict [(lit ''selection'', str ''  ''), (lit ''question'', JInt 5)]"

definition blank_with_question :: json where
  "blank_with_question = JDict [(lit ''selection'', str ''  ''), (lit ''question'', str ''why?'')]"

definition long_blank_with_flag :: json where
  "long_blank_with_flag =
     JDict [(lit ''selection'', JStr long_blank_selection), (lit ''question'', JBool True)]"

definition long_blank_with_question :: json where
  "long_blank_with_question =
     JDict [(lit ''selection'', JStr long_blank_selection), (lit ''question'', str ''why?'')]"

definition user_turn :: json where
  "user_turn = JDict [(lit ''role'', str ''user''), (lit ''content'', str ''hi'')]"

definition assistant_turn :: json where
  "assistant_turn = JDict [(lit ''role'', str ''assistant''), (lit ''content'', str ''yo'')]"

definition both_provided :: json where
  "both_provided =
     JDict [(lit ''selection'', str ''x''), (lit ''question'', str ''q''),
            (lit ''popup_turns'', JList [user_turn])]"

definition summary_request :: json where
  "summary_request =
     JDict [(lit ''selection'', str ''x''),
            (lit ''popup_turns'', JList [user_turn, assistant_turn])]"

definition number_turn_request :: json where
  "number_turn_request =
     JDict [(lit ''selection'', str ''x''), (lit ''popup_turns'', JList [JInt 5])]"

definition long_blank_summary_request :: json where
  "long_blank_summary_request =
     JDict [(lit ''selection'', JStr long_blank_selection),
            (lit ''popup_turns'', JList [user_turn])]"

definition system_entry :: json where
  "system_entry = JDict [(lit ''role'', str ''system''), (lit ''content'', str ''obey'')]"

definition system_history_request :: json where
  "system_history_request =
     JDict [(lit ''selection'', str ''x''), (lit ''question'', str ''q''),
            (lit ''history'', JList [system_entry])]"

definition system_chat_request :: json where
  "system_chat_request = JDict [(lit ''messages'', JList [system_entry])]"

definition long_selection :: ustr where
  "long_selection = replicate 3000 0x61 @ lit ''tail''"

definition long_selection_request :: json where
  "long_selection_request =
     JDict [(lit ''selection'', JStr long_selection), (lit ''question'', str ''q'')]"

section \<open>The stream decoder\<close>

lemma startswith_nonempty: "startswith line (lit ''data: '') \<Longrightarrow> line \<noteq> []"
  by (auto simp: startswith_def lit_def)

lemma generate_Cons:
  "generate loads (line # rest) =
     (if is_done line then [] else emitted loads line @ generate loads rest)"
  using startswith_nonempty[of line]
  by (auto simp: is_done_def emitted_def data_payload_def Let_def split: sum.splits option.splits)

lemma generate_takeWhile:
  "generate loads ls = concat (map (emitted loads) (takeWhile (\<lambda>l. \<not> is_done l) ls))"
  by (induction ls) (simp_all only: generate.simps(1) generate_Cons takeWhile.simps list.map concat.simps split: if_splits, auto)

lemma malformed_emitted: "malformed loads l \<Longrightarrow> emitted loads l = [] \<and> \<not> is_done l"
  by (auto simp: malformed_def emitted_def is_done_def split: sum.splits)

lemma generate_filter:
  "generate loads (filter (\<lambda>l. \<not> malformed loads l) ls) = generate loads ls"
proof (induction ls)
  case Nil show ?case by simp
next
  case (Cons l ls)
  show ?case
  proof (cases "malformed loads l")
    case True
    then show ?thesis using Cons malformed_emitted[OF True]
      by (simp add: generate_Cons del: generate.simps)
  next
    case False
    then show ?thesis using Cons by (simp add: generate_Cons del: generate.simps)
  qed
qed

lemma payload_hi: \<open>data_payload hi_frame = lit ''{"choices":[{"delta":{"content":"Hi"}}]}''\<close>
  by (simp add: data_payload_def hi_frame_def strip_def lit_def isspace_def)

lemma payload_there: \<open>data_payload there_frame = lit ''{"choices":[{"delta":{"content":" there"}}]}''\<close>
  by (simp add: data_payload_def there_frame_def strip_def lit_def isspace_def)

lemma payload_done: \<open>data_payload done_frame = lit ''[DONE]''\<close>
  by (simp add: data_payload_def done_frame_def strip_def lit_def isspace_def)

lemma payload_bad: \<open>data_payload bad_frame = lit ''{"choices":[{"delta"''\<close>
  by (simp add: data_payload_def bad_frame_def strip_def lit_def isspace_def)

lemma payload_surrogate:
  \<open>data_payload surrogate_frame
     = lit ''{"choices":[{"delta":{"content":"'' @ [0x5C] @ lit ''ud800"}}]}''\<close>
  by (simp add: data_payload_def surrogate_frame_def strip_def lit_def isspace_def)

lemma event_delta_content: "event_delta (content_event s) = Inr (JStr s)"
  by (simp add: event_delta_def content_event_def bind_exn_def lit_def)

lemma starts_frames:
  "startswith hi_frame (lit ''data: '')" "startswith there_frame (lit ''data: '')"
  "startswith done_frame (lit ''data: '')" "startswith bad_frame (lit ''data: '')"
  "startswith surrogate_frame (lit ''data: '')"
  by (simp_all add: startswith_def hi_frame_def there_frame_def done_frame_def bad_frame_def
        surrogate_frame_def lit_def)

lemma done_frames:
  "\<not> is_done hi_frame" "\<not> is_done there_frame" "is_done done_frame" "\<not> is_done bad_frame"
  "\<not> is_done surrogate_frame"
  by (simp_all add: is_done_def starts_frames payload_hi payload_there payload_done payload_bad
        payload_surrogate)
     (simp_all add: lit_def)

lemma payloads_distinct:
  "data_payload there_frame \<noteq> data_payload hi_frame"
  "data_payload bad_frame \<noteq> data_payload hi_frame"
  "data_payload bad_frame \<noteq> data_payload there_frame"
  "data_payload bad_frame \<noteq> data_payload surrogate_frame"
  "data_payload surrogate_frame \<noteq> data_payload hi_frame"
  "data_payload surrogate_frame \<noteq> data_payload there_frame"
  by (simp_all add: payload_hi payload_there payload_bad payload_surrogate) (simp_all add: lit_def)

lemma encode_examples:
  "encode_utf8 (lit ''Hi'') = Inr (ascii_bytes ''Hi'')"
  "encode_utf8 (lit '' there'') = Inr (ascii_bytes '' there'')"
  by (simp_all add: lit_def ascii_bytes_def utf8_code_point_def)

lemma lit_nonempty: "lit ''Hi'' \<noteq> []" "lit '' there'' \<noteq> []"
  by (simp_all add: lit_def)

lemma chunk_examples:
  "frame_chunk example_loads (data_payload hi_frame) = Inr (Some (ascii_bytes ''Hi''))"
  "frame_chunk example_loads (data_payload there_frame) = Inr (Some (ascii_bytes '' there''))"
  "frame_chunk example_loads (data_payload bad_frame) = Inl ValueError"
  "frame_chunk example_loads (data_payload surrogate_frame) = Inl UnicodeEncodeError"
  by (simp_all add: frame_chunk_def example_loads_def payloads_distinct event_delta_content
        bind_exn_def encode_examples lit_nonempty utf8_code_point_def)

text \<open>
  Claim C5, amended. On a 200 response the decoder reads the lines in order: a line
  without the prefix \<open>data: \<close> yields nothing, a frame whose payload is
  \<open>[DONE]\<close> ends the output whatever follows, and a frame whose event carries a
  non-empty string delta that UTF-8 can encode yields the bytes of that delta as the
  next chunk, while a truthy delta that is no string or that cannot be encoded yields
  nothing, like a malformed frame. For the frames with deltas \<open>Hi\<close> and
  \<open> there\<close> followed by \<open>[DONE]\<close>, the output is the two chunks \<open>Hi\<close>
  and \<open> there\<close>, that is the bytes \<open>Hi there\<close>, and nothing after it.
\<close>

theorem generate_decodes_frames:
  "(\<not> startswith la (lit ''data: '') \<longrightarrow> generate loads (la # rest) = generate loads rest) \<and>
   (is_done lb \<longrightarrow> generate loads (lb # rest) = []) \<and>
   (startswith lc (lit ''data: '') \<and> \<not> is_done lc \<and> loads (data_payload lc) = Some event \<and>
      event_delta event = Inr (JStr s) \<and> s \<noteq> [] \<and> encode_utf8 s = Inr bs
      \<longrightarrow> generate loads (lc # rest) = bs # generate loads rest) \<and>
   (loads (data_payload hi_frame) = Some (content_event (lit ''Hi'')) \<and>
    loads (data_payload there_frame) = Some (content_event (lit '' there''))
      \<longrightarrow> generate loads ([hi_frame, there_frame, done_frame] @ rest)
            = [ascii_bytes ''Hi'', ascii_bytes '' there''] \<and>
          concat (generate loads ([hi_frame, there_frame, done_frame] @ rest))
            = ascii_bytes ''Hi there'') \<and>
   (startswith ld (lit ''data: '') \<and> \<not> is_done ld \<and> loads (data_payload ld) = Some ev \<and>
      event_delta ev = Inr d \<and> truthy d \<and> py_encode d = Inl err
      \<longrightarrow> generate loads (ld # rest) = generate loads rest)"
proof (intro conjI impI)
  assume "\<not> startswith la (lit ''data: '')"
  then show "generate loads (la # rest) = generate loads rest"
    by (simp add: generate_Cons is_done_def emitted_def del: generate.simps)
next
  assume "is_done lb"
  then show "generate loads (lb # rest) = []"
    by (simp add: generate_Cons del: generate.simps)
next
  assume a: "startswith lc (lit ''data: '') \<and> \<not> is_done lc \<and> loads (data_payload lc) = Some event \<and>
      event_delta event = Inr (JStr s) \<and> s \<noteq> [] \<and> encode_utf8 s = Inr bs"
  then have "frame_chunk loads (data_payload lc) = Inr (Some bs)"
    by (simp add: frame_chunk_def bind_exn_def)
  with a show "generate loads (lc # rest) = bs # generate loads rest"
    by (simp add: generate_Cons emitted_def del: generate.simps)
next
  assume a: "loads (data_payload hi_frame) = Some (content_event (lit ''Hi'')) \<and>
    loads (data_payload there_frame) = Some (content_event (lit '' there''))"
  have h: "emitted loads hi_frame = [ascii_bytes ''Hi'']"
    using a by (simp add: emitted_def starts_frames frame_chunk_def event_delta_content
        bind_exn_def encode_examples lit_nonempty)
  have t: "emitted loads there_frame = [ascii_bytes '' there'']"
    using a by (simp add: emitted_def starts_frames frame_chunk_def event_delta_content
        bind_exn_def encode_examples lit_nonempty)
  show g: "generate loads ([hi_frame, there_frame, done_frame] @ rest)
          = [ascii_bytes ''Hi'', ascii_bytes '' there'']"
    by (simp add: generate_Cons done_frames h t del: generate.simps)
  show "concat (generate loads ([hi_frame, there_frame, done_frame] @ rest)) = ascii_bytes ''Hi there''"
    unfolding g by (simp add: ascii_bytes_def)
next
  assume a: "startswith ld (lit ''data: '') \<and> \<not> is_done ld \<and> loads (data_payload ld) = Some ev \<and>
      event_delta ev = Inr d \<and> truthy d \<and> py_encode d = Inl err"
  then have "frame_chunk loads (data_payload ld) = Inl err"
    by (simp add: frame_chunk_def bind_exn_def)
  with a show "generate loads (ld # rest) = generate loads rest"
    by (simp add: generate_Cons emitted_def del: generate.simps)
qed

theorem generate_decodes_frames_witness:
  "\<not> startswith [] (lit ''data: '') \<and> generate example_loads ([] # [hi_frame]) = generate example_loads [hi_frame] \<and>
   is_done done_frame \<and> generate example_loads (done_frame # [hi_frame]) = [] \<and>
   startswith hi_frame (lit ''data: '') \<and> \<not> is_done hi_frame \<and>
   example_loads (data_payload hi_frame) = Some (content_event (lit ''Hi'')) \<and>
   event_delta (content_event (lit ''Hi'')) = Inr (JStr (lit ''Hi'')) \<and> lit ''Hi'' \<noteq> [] \<and>
   encode_utf8 (lit ''Hi'') = Inr (ascii_bytes ''Hi'') \<and>
   generate example_loads (hi_frame # [hi_frame]) = ascii_bytes ''Hi'' # generate example_loads [hi_frame] \<and>
   example_loads (data_payload there_frame) = Some (content_event (lit '' there'')) \<and>
   generate example_loads ([hi_frame, there_frame, done_frame] @ [hi_frame])
     = [ascii_bytes ''Hi'', ascii_bytes '' there''] \<and>
   concat (generate example_loads ([hi_frame, there_frame, done_frame] @ [hi_frame])) = ascii_bytes ''Hi there'' \<and>
   startswith surrogate_frame (lit ''data: '') \<and> \<not> is_done surrogate_frame \<and>
   example_loads (data_payload surrogate_frame) = Some (content_event [0xD800]) \<and>
   event_delta (content_event [0xD800]) = Inr (JStr [0xD800]) \<and> truthy (JStr [0xD800]) \<and>
   py_encode (JStr [0xD800]) = Inl UnicodeEncodeError \<and>
   generate example_loads (surrogate_frame # [hi_frame]) = generate example_loads [hi_frame]"
proof -
  have s: "\<not> startswith [] (lit ''data: '')"
    by (simp add: startswith_def lit_def)
  have l: "example_loads (data_payload hi_frame) = Some (content_event (lit ''Hi''))"
      "example_loads (data_payload there_frame) = Some (content_event (lit '' there''))"
      "example_loads (data_payload surrogate_frame) = Some (content_event [0xD800])"
    by (simp_all add: example_loads_def payloads_distinct)
  have u: "py_encode (JStr [0xD800]) = Inl UnicodeEncodeError"
    by (simp add: utf8_code_point_def)
  show ?thesis
    using generate_decodes_frames [of "[]" example_loads "[hi_frame]" done_frame hi_frame
        "content_event (lit ''Hi'')" "lit ''Hi''" "ascii_bytes ''Hi''" surrogate_frame
        "content_event [0xD800]" "JStr [0xD800]" UnicodeEncodeError]
      s l u done_frames starts_frames event_delta_content [of "lit ''Hi''"]
      event_delta_content [of "[0xD800]"] encode_examples lit_nonempty
    by (simp add: ascii_bytes_def del: generate.simps)
qed

text \<open>
  As the specification words claim C5, every non-empty content delta of a parsed event
  is emitted. A delta that \<open>encode\<close> rejects is not: the frame whose content is the
  lone surrogate U+D800 parses, its delta is a non-empty string, and the decoder yields
  nothing for it and goes on to the next line.
\<close>

theorem generate_decodes_frames_counterexample:
  "example_loads (data_payload surrogate_frame) = Some (content_event [0xD800]) \<and>
   event_delta (content_event [0xD800]) = Inr (JStr [0xD800]) \<and>
   truthy (JStr [0xD800]) \<and>
   generate example_loads [surrogate_frame, hi_frame, done_frame] = [ascii_bytes ''Hi'']"
proof -
  have l: "example_loads (data_payload surrogate_frame) = Some (content_event [0xD800])"
    by (simp add: example_loads_def payloads_distinct)
  have e: "emitted example_loads surrogate_frame = []"
    "emitted example_loads hi_frame = [ascii_bytes ''Hi'']"
    by (simp_all add: emitted_def starts_frames chunk_examples)
  have "generate example_loads [surrogate_frame, hi_frame, done_frame] = [ascii_bytes ''Hi'']"
    by (simp add: generate_Cons done_frames e del: generate.simps)
  then show ?thesis
    using l by (simp add: event_delta_content)
qed

text \<open>
  Claim C6. Frames with the prefix whose payload cannot be parsed, or whose event has
  not the expected shape, are skipped: removing them from the upstream lines does not
  change the output, which is the concatenation of what the remaining frames yield up
  to the first \<open>[DONE]\<close>; a malformed frame between two runs of lines adds no byte
  and does not end the output.
\<close>

theorem generate_skips_malformed:
  "generate loads (filter (\<lambda>l. \<not> malformed loads l) ls) = generate loads ls \<and>
   generate loads ls =
     concat (map (emitted loads)
       (takeWhile (\<lambda>l. \<not> is_done l) (filter (\<lambda>l. \<not> malformed loads l) ls))) \<and>
   (malformed loads bad \<longrightarrow> generate loads (xs @ bad # ys) = generate loads (xs @ ys))"
proof (intro conjI impI)
  show f: "generate loads (filter (\<lambda>l. \<not> malformed loads l) ls) = generate loads ls"
    by (rule generate_filter)
  show "generate loads ls =
     concat (map (emitted loads)
       (takeWhile (\<lambda>l. \<not> is_done l) (filter (\<lambda>l. \<not> malformed loads l) ls)))"
    using generate_takeWhile [of loads "filter (\<lambda>l. \<not> malformed loads l) ls"] f by simp
next
  assume m: "malformed loads bad"
  have "generate loads (xs @ bad # ys)
        = generate loads (filter (\<lambda>l. \<not> malformed loads l) (xs @ bad # ys))"
    by (simp only: generate_filter)
  also have "\<dots> = generate loads (filter (\<lambda>l. \<not> malformed loads l) (xs @ ys))"
    using m by simp
  also have "\<dots> = generate loads (xs @ ys)"
    by (simp only: generate_filter)
  finally show "generate loads (xs @ bad # ys) = generate loads (xs @ ys)" .
qed

theorem generate_skips_malformed_witness:
  "malformed example_loads bad_frame \<and>
   generate example_loads ([hi_frame] @ bad_frame # [there_frame, done_frame])
     = generate example_loads ([hi_frame] @ [there_frame, done_frame]) \<and>
   generate example_loads ([hi_frame] @ [there_frame, done_frame])
     = [ascii_bytes ''Hi'', ascii_bytes '' there'']"
proof -
  have m: "malformed example_loads bad_frame"
    using done_frames by (simp add: malformed_def starts_frames chunk_examples is_done_def)
  have e: "emitted example_loads hi_frame = [ascii_bytes ''Hi'']"
     "emitted example_loads there_frame = [ascii_bytes '' there'']"
    by (simp_all add: emitted_def starts_frames chunk_examples)
  have g: "generate example_loads ([hi_frame] @ [there_frame, done_frame])
     = [ascii_bytes ''Hi'', ascii_bytes '' there'']"
    by (simp add: generate_Cons done_frames e del: generate.simps)
  show ?thesis
    using generate_skips_malformed [of example_loads "[]" bad_frame "[hi_frame]" "[there_frame, done_frame]"] m g
    by (simp del: generate.simps)
qed

section \<open>Look before you stream\<close>

lemma error_body_relayed: "error_body r = relayed_error_body r"
proof (cases "r_json r")
  case None
  then show ?thesis by (simp add: error_body_def relayed_error_body_def)
next
  case (Some body)
  then show ?thesis
    by (cases body)
       (auto simp: error_body_def relayed_error_body_def is_nested_error_def nested_message_def
             split: option.splits json.splits)
qed

text \<open>
  Claim C1. For every message list the relay makes one upstream request and returns a
  response that is either a JSON body or a stream, never both and never anything else.
  It is a stream exactly when the upstream call answered with status 200, a fact known
  before the first line of the upstream body is read; a JSON response carries no
  streamed byte, and a stream is the decoder's output and nothing else.
\<close>

theorem stream_completion_error_or_stream:
  "\<exists>resp. stream_completion env messages = ([upstream_request env messages], Returned resp) \<and>
     (is_json_response resp \<longleftrightarrow> \<not> is_stream_response resp) \<and>
     (is_stream_response resp \<longleftrightarrow> upstream_ok (requests_post env (upstream_request env messages))) \<and>
     (is_json_response resp \<longrightarrow> streamed_bytes resp = []) \<and>
     (is_stream_response resp \<longrightarrow>
        (\<exists>r. requests_post env (upstream_request env messages) = Reply r \<and>
             resp = Response_stream (generate (json_loads env) (r_lines r))))"
  by (cases "requests_post env (upstream_request env messages)")
     (auto simp: stream_completion_def Let_def is_json_response_def is_stream_response_def
        upstream_ok_def streamed_bytes_def)

theorem stream_completion_error_or_stream_witness:
  "stream_completion (example_env (Reply rate_limited)) (JList [])
     = ([upstream_request (example_env (Reply rate_limited)) (JList [])],
        Returned (Response_json 429 (error_json (JStr (lit ''rate limited''))))) \<and>
   is_json_response (Response_json 429 (error_json (JStr (lit ''rate limited'')))) \<and>
   \<not> is_stream_response (Response_json 429 (error_json (JStr (lit ''rate limited'')))) \<and>
   \<not> upstream_ok (requests_post (example_env (Reply rate_limited))
        (upstream_request (example_env (Reply rate_limited)) (JList []))) \<and>
   streamed_bytes (Response_json 429 (error_json (JStr (lit ''rate limited'')))) = []"
proof -
  have b: "error_body rate_limited = error_json (JStr (lit ''rate limited''))"
    by (simp add: error_body_relayed relayed_error_body_def rate_limited_def)
  have s: "stream_completion (example_env (Reply rate_limited)) (JList [])
     = ([upstream_request (example_env (Reply rate_limited)) (JList [])],
        Returned (Response_json 429 (error_json (JStr (lit ''rate limited'')))))"
    using b by (simp add: stream_completion_def Let_def example_env_def rate_limited_def)
  show ?thesis
    using stream_completion_error_or_stream [of "example_env (Reply rate_limited)" "JList []"] s
    by (auto simp: is_json_response_def is_stream_response_def streamed_bytes_def)
qed

text \<open>
  Claim C4, amended. For an upstream response whose status is not 200 the relay returns
  a JSON response with the same status and no streamed byte. Its body is
  \<open>{"error": m}\<close> when the upstream body is JSON of the shape
  \<open>{"error": {"message": m}}\<close>; the upstream JSON value itself, unchanged, when the
  body is JSON of any other shape; and \<open>{"error": text}\<close> with the raw response text
  when the body is not JSON, where an empty text is replaced by
  \<open>Unknown error from Groq\<close>. A 429 with body
  \<open>{"error": {"message": "rate limited"}}\<close> gives status 429 and body
  \<open>{"error": "rate limited"}\<close>.
\<close>

theorem relayed_error:
  assumes "requests_post env (upstream_request env messages) = Reply r"
    and "status_code r \<noteq> 200"
  shows "stream_completion env messages
           = ([upstream_request env messages],
              Returned (Response_json (status_code r) (relayed_error_body r))) \<and>
         streamed_bytes (Response_json (status_code r) (relayed_error_body r)) = []"
  using assms
  by (simp add: stream_completion_def Let_def error_body_relayed streamed_bytes_def)

lemma example_post: "requests_post (example_env up) req = up"
  by (simp add: example_env_def)

lemma error_bodies:
  "relayed_error_body rate_limited = error_json (str ''rate limited'')"
  "relayed_error_body other_shape = JDict [(lit ''detail'', str ''boom'')]"
  "claimed_error_body other_shape = error_json (JStr (r_text other_shape))"
  "relayed_error_body empty_body = error_json (str ''Unknown error from Groq'')"
  "claimed_error_body empty_body = error_json (JStr [])"
  by (simp_all add: relayed_error_body_def claimed_error_body_def rate_limited_def other_shape_def
        empty_body_def str_def)

theorem relayed_error_witness:
  "requests_post (example_env (Reply rate_limited))
      (upstream_request (example_env (Reply rate_limited)) (JList [])) = Reply rate_limited \<and>
   status_code rate_limited = 429 \<and>
   stream_completion (example_env (Reply rate_limited)) (JList [])
     = ([upstream_request (example_env (Reply rate_limited)) (JList [])],
        Returned (Response_json 429 (JDict [(lit ''error'', JStr (lit ''rate limited''))]))) \<and>
   streamed_bytes (Response_json 429 (JDict [(lit ''error'', JStr (lit ''rate limited''))])) = []"
proof -
  have s: "status_code rate_limited = 429"
    by (simp add: rate_limited_def)
  show ?thesis
    using relayed_error [of "example_env (Reply rate_limited)" "JList []" rate_limited]
      example_post [of "Reply rate_limited"] s error_bodies(1)
    by (simp add: error_json_def str_def)
qed

text \<open>
  As the specification words claim C4, the raw response text is used wherever the body
  has not the nested shape. It is not: an upstream 500 with the JSON body
  \<open>{"detail": "boom"}\<close> is relayed as that JSON value, and an upstream 503 with an
  empty body is relayed with the fixed message, not with the (empty) text.
\<close>

theorem relayed_error_counterexample:
  "stream_completion (example_env (Reply other_shape)) (JList [])
     = ([upstream_request (example_env (Reply other_shape)) (JList [])],
        Returned (Response_json 500 (JDict [(lit ''detail'', JStr (lit ''boom''))]))) \<and>
   JDict [(lit ''detail'', JStr (lit ''boom''))] \<noteq> claimed_error_body other_shape \<and>
   stream_completion (example_env (Reply empty_body)) (JList [])
     = ([upstream_request (example_env (Reply empty_body)) (JList [])],
        Returned (Response_json 503 (error_json (JStr (lit ''Unknown error from Groq''))))) \<and>
   error_json (JStr (lit ''Unknown error from Groq'')) \<noteq> claimed_error_body empty_body"
proof -
  have s: "status_code other_shape = 500" "status_code empty_body = 503"
    by (simp_all add: other_shape_def empty_body_def)
  have n: "JDict [(lit ''detail'', JStr (lit ''boom''))] \<noteq> claimed_error_body other_shape"
    "error_json (JStr (lit ''Unknown error from Groq'')) \<noteq> claimed_error_body empty_body"
    unfolding error_bodies by (simp_all add: error_json_def lit_def)
  have a: "stream_completion (example_env (Reply other_shape)) (JList [])
     = ([upstream_request (example_env (Reply other_shape)) (JList [])],
        Returned (Response_json 500 (JDict [(lit ''detail'', JStr (lit ''boom''))])))"
    using error_bodies(2) s
    by (simp add: stream_completion_def Let_def example_post error_body_relayed str_def)
  have b: "stream_completion (example_env (Reply empty_body)) (JList [])
     = ([upstream_request (example_env (Reply empty_body)) (JList [])],
        Returned (Response_json 503 (error_json (JStr (lit ''Unknown error from Groq'')))))"
    using error_bodies(4) s
    by (simp add: stream_completion_def Let_def example_post error_body_relayed str_def)
  show ?thesis using a b n by simp
qed

section \<open>Reading the request\<close>

lemma bind_exn_simps [simp]:
  "bind_exn (Inl e) f = Inl e" "bind_exn (Inr x) f = f x"
  by (simp_all add: bind_exn_def)

lemma request_data_dict: "is_dict body \<Longrightarrow> request_data body = body"
  by (cases body) (auto simp: is_dict_def request_data_def py_or_def)

lemma strip_empty_iff: "strip s = [] \<longleftrightarrow> list_all isspace s"
proof -
  have "strip s = [] \<longleftrightarrow> (\<forall>x\<in>set (dropWhile isspace s). isspace x)"
    by (simp add: strip_def dropWhile_eq_Nil_conv)
  also have "\<dots> \<longleftrightarrow> dropWhile isspace s = []"
  proof
    assume a: "\<forall>x\<in>set (dropWhile isspace s). isspace x"
    show "dropWhile isspace s = []"
    proof (rule ccontr)
      assume "dropWhile isspace s \<noteq> []"
      then have "\<not> isspace (hd (dropWhile isspace s))"
        and "hd (dropWhile isspace s) \<in> set (dropWhile isspace s)"
        by (simp_all add: hd_dropWhile)
      with a show False by blast
    qed
  qed (auto dest: set_dropWhileD)
  also have "\<dots> \<longleftrightarrow> list_all isspace s"
    by (simp add: dropWhile_eq_Nil_conv list_all_iff)
  finally show ?thesis .
qed

lemma list_all_take: "list_all P s \<Longrightarrow> list_all P (take n s)"
  by (auto simp: list_all_iff dest: in_set_takeD)

lemma branch_messages_selection:
  assumes "is_dict data" and "selection_of data = JStr sel"
  shows "branch_messages data =
     bind_exn (py_strip (question_of data)) (\<lambda>question.
       if list_all isspace (take 3000 sel) then Inr (Inl (bad_request ''selection required''))
       else
        bind_exn (py_iter (history_of data)) (\<lambda>hs.
          if truthy (popup_turns_of data) then
            bind_exn (py_iter (popup_turns_of data)) (\<lambda>ts.
            bind_exn (for_append branch_turn ts) (\<lambda>turns.
              Inr (Inr (concat (map history_entry hs) @ selection_context (take 3000 sel) # turns))))
          else if question \<noteq> [] then
            Inr (Inr (concat (map history_entry hs) @ selection_context (take 3000 sel)
                      # [message (JStr (lit ''user'')) (JStr question)]))
          else Inr (Inl (bad_request ''Provide either popup_turns or question''))))"
proof -
  obtain kvs where d: "data = JDict kvs"
    using assms(1) by (cases data) (simp_all add: is_dict_def)
  show ?thesis
    using assms(2) unfolding d
    by (simp add: branch_messages_def field_def selection_of_def question_of_def history_of_def
        popup_turns_of_def Let_def strip_empty_iff bind_exn_def split: sum.splits)
qed

lemma summary_messages_selection:
  assumes "is_dict data" and "selection_of data = JStr sel"
  shows "summary_messages data =
     (if list_all isspace (take 3000 sel) then Inr (Inl (bad_request ''selection required''))
      else
        bind_exn (py_iter (history_of data)) (\<lambda>hs.
          if truthy (popup_turns_of data) then
            bind_exn (py_iter (popup_turns_of data)) (\<lambda>ts.
            bind_exn (for_append summary_turn ts) (\<lambda>turns.
              Inr (Inr (concat (map history_entry hs) @ selection_context (take 3000 sel)
                        # transcript_header # turns
                        @ [message (JStr (lit ''user'')) (JStr summary_instruction)]))))
          else Inr (Inr (concat (map history_entry hs) @ selection_context (take 3000 sel)
                        # [message (JStr (lit ''user'')) (JStr summary_instruction)]))))"
proof -
  obtain kvs where d: "data = JDict kvs"
    using assms(1) by (cases data) (simp_all add: is_dict_def)
  show ?thesis
    using assms(2) unfolding d
    by (simp add: summary_messages_def field_def selection_of_def history_of_def
        popup_turns_of_def Let_def strip_empty_iff bind_exn_def split: sum.splits)
qed

lemma selection_required_summary:
  assumes "GROQ_API_KEY env \<noteq> []" and "is_dict (request_data body)"
    and "selection_of (request_data body) = JStr sel" and "list_all isspace (take 3000 sel)"
  shows "branch_summary env POST body = ([], Returned (bad_request ''selection required''))"
  using assms by (simp add: branch_summary_def summary_messages_selection)

lemma selection_required_branch:
  assumes "GROQ_API_KEY env \<noteq> []" and "is_dict (request_data body)"
    and "selection_of (request_data body) = JStr sel" and "list_all isspace (take 3000 sel)"
  shows "branch env POST body =
     (case py_strip (question_of (request_data body)) of
        Inl e \<Rightarrow> ([], Raised e)
      | Inr q \<Rightarrow> ([], Returned (bad_request ''selection required'')))"
  using assms by (simp add: branch_def branch_messages_selection bind_exn_def split: sum.splits)

lemma example_key: "GROQ_API_KEY (example_env up) \<noteq> []"
  by (simp add: example_env_def lit_def)

section \<open>Blank selections\<close>

text \<open>
  What the two handlers do with a blank selection. For a POST request with the
  credential configured and a JSON object as body, whose selection is blank (missing,
  empty or whitespace only): \<open>branch_summary\<close> answers with status 400 and the
  message \<open>selection required\<close>, whatever the other fields; \<open>branch\<close> makes no
  upstream call, whatever the other fields, and gives the same 400 answer whenever the
  question field is missing, falsy or a string.
\<close>

lemma blank_selection_rejected:
  assumes "GROQ_API_KEY env \<noteq> []" and "is_dict (request_data body)"
    and "selection_of (request_data body) = JStr sel" and "list_all isspace sel"
  shows "branch_summary env POST body = ([], Returned (bad_request ''selection required'')) \<and>
         fst (branch env POST body) = [] \<and>
         (is_str (question_of (request_data body)) \<longrightarrow>
            branch env POST body = ([], Returned (bad_request ''selection required'')))"
proof -
  have t: "list_all isspace (take 3000 sel)"
    using assms(4) by (rule list_all_take)
  have b: "branch env POST body =
     (case py_strip (question_of (request_data body)) of
        Inl e \<Rightarrow> ([], Raised e)
      | Inr q \<Rightarrow> ([], Returned (bad_request ''selection required'')))"
    using assms(1-3) t by (rule selection_required_branch)
  have "branch_summary env POST body = ([], Returned (bad_request ''selection required''))"
    using assms(1-3) t by (rule selection_required_summary)
  moreover have "fst (branch env POST body) = []"
    unfolding b by (simp split: sum.splits)
  moreover have "is_str (question_of (request_data body)) \<longrightarrow>
            branch env POST body = ([], Returned (bad_request ''selection required''))"
    unfolding b by (cases "question_of (request_data body)") (simp_all add: is_str_def)
  ultimately show ?thesis by blast
qed

lemma blank_fields:
  "is_dict blank_with_question"
  "selection_of blank_with_question = JStr (lit ''  '')"
  "question_of blank_with_question = JStr (lit ''why?'')"
  "list_all isspace (lit ''  '')"
  by (simp_all add: blank_with_question_def str_def py_or_def selection_of_def
        question_of_def field_def is_dict_def lit_def isspace_def)

lemma blank_selection_rejected_witness:
  "GROQ_API_KEY (example_env (Reply rate_limited)) \<noteq> [] \<and>
   is_dict (request_data blank_with_question) \<and>
   selection_of (request_data blank_with_question) = JStr (lit ''  '') \<and>
   list_all isspace (lit ''  '') \<and>
   is_str (question_of (request_data blank_with_question)) \<and>
   branch_summary (example_env (Reply rate_limited)) POST blank_with_question
     = ([], Returned (Response_json 400 (error_json (JStr (lit ''selection required''))))) \<and>
   fst (branch (example_env (Reply rate_limited)) POST blank_with_question) = [] \<and>
   branch (example_env (Reply rate_limited)) POST blank_with_question
     = ([], Returned (Response_json 400 (error_json (JStr (lit ''selection required'')))))"
proof -
  note d = request_data_dict [OF blank_fields(1)]
  show ?thesis
    using blank_selection_rejected [of "example_env (Reply rate_limited)" blank_with_question "lit ''  ''"]
      blank_fields example_key [of "Reply rate_limited"]
    by (simp add: d bad_request_def is_str_def)
qed

text \<open>
  Claim C7. A request whose selection is blank is to be answered with the 400
  validation error regardless of the other fields, and \<open>branch_summary\<close> does so.
  \<open>branch\<close> does not: \<open>question.strip()\<close> runs before the selection is tested,
  so on the body with a blank selection and the number 5 as question the handler
  raises \<open>AttributeError\<close> and returns no response of its own, where
  \<open>branch_summary\<close> answers 400 on the same body.
\<close>

theorem blank_selection_failing_input:
  "selection_of (request_data blank_with_number) = JStr (lit ''  '') \<and>
   list_all isspace (lit ''  '') \<and>
   branch (example_env (Reply rate_limited)) POST blank_with_number = ([], Raised AttributeError) \<and>
   branch_summary (example_env (Reply rate_limited)) POST blank_with_number
     = ([], Returned (Response_json 400 (error_json (JStr (lit ''selection required'')))))"
proof -
  have f: "is_dict blank_with_number" "selection_of blank_with_number = JStr (lit ''  '')"
    "py_strip (question_of blank_with_number) = Inl AttributeError"
    by (simp_all add: blank_with_number_def str_def py_or_def selection_of_def question_of_def
          field_def is_dict_def)
       (simp_all add: lit_def)
  note d = request_data_dict [OF f(1)]
  have t: "list_all isspace (take 3000 (lit ''  ''))"
    using blank_fields(4) by (rule list_all_take)
  have b: "branch (example_env (Reply rate_limited)) POST blank_with_number
      = ([], Raised AttributeError)"
    using selection_required_branch [OF example_key, of blank_with_number "lit ''  ''"
        "Reply rate_limited"] f t
    by (simp add: d)
  have c: "branch_summary (example_env (Reply rate_limited)) POST blank_with_number
     = ([], Returned (Response_json 400 (error_json (JStr (lit ''selection required'')))))"
    using selection_required_summary [OF example_key, of blank_with_number "lit ''  ''"
        "Reply rate_limited"] f t
    by (simp add: d bad_request_def)
  show ?thesis
    using b c f blank_fields(4) by (simp add: d)
qed

text \<open>
  The selection is cut to its first 3000 characters before it is checked: for a POST
  request with the credential configured and a JSON object as body, whose selection
  has only whitespace among its first 3000 characters, \<open>branch_summary\<close> answers
  with status 400 and \<open>selection required\<close>, and so does \<open>branch\<close> whenever the
  question field is missing, falsy or a string, also when the selection has other
  characters after position 3000.
\<close>

lemma blank_prefix_rejected:
  assumes "GROQ_API_KEY env \<noteq> []" and "is_dict (request_data body)"
    and "selection_of (request_data body) = JStr sel" and "list_all isspace (take 3000 sel)"
  shows "branch_summary env POST body = ([], Returned (bad_request ''selection required'')) \<and>
         (is_str (question_of (request_data body)) \<longrightarrow>
            branch env POST body = ([], Returned (bad_request ''selection required'')))"
proof -
  have "is_str (question_of (request_data body)) \<longrightarrow>
            branch env POST body = ([], Returned (bad_request ''selection required''))"
    unfolding selection_required_branch [OF assms]
    by (cases "question_of (request_data body)") (simp_all add: is_str_def)
  then show ?thesis
    using selection_required_summary [OF assms] by simp
qed

lemma take_replicate_append: "take n (replicate n a @ ys) = replicate n a"
  by simp

lemma long_blank_prefix: "take 3000 long_blank_selection = replicate 3000 0x20"
  unfolding long_blank_selection_def by (rule take_replicate_append)

lemma long_blank_facts:
  "list_all isspace (take 3000 long_blank_selection)"
  "\<not> list_all isspace long_blank_selection"
  "long_blank_selection \<noteq> []"
proof -
  have "isspace 0x20" by (simp add: isspace_def)
  then show "list_all isspace (take 3000 long_blank_selection)"
    unfolding long_blank_prefix by (simp add: list_all_iff)
  have "\<not> isspace 120" by (simp add: isspace_def)
  then show "\<not> list_all isspace long_blank_selection"
    unfolding long_blank_selection_def by (simp add: lit_def)
  show "long_blank_selection \<noteq> []"
    unfolding long_blank_selection_def by (simp add: lit_def)
qed

lemma long_blank_fields:
  "is_dict long_blank_with_question"
  "selection_of long_blank_with_question = JStr long_blank_selection"
  "question_of long_blank_with_question = JStr (lit ''why?'')"
  "is_dict long_blank_with_flag"
  "selection_of long_blank_with_flag = JStr long_blank_selection"
  "question_of long_blank_with_flag = JBool True"
  by (simp_all add: long_blank_with_question_def long_blank_with_flag_def is_dict_def
        selection_of_def question_of_def field_def py_or_def long_blank_facts str_def)
     (simp_all add: lit_def)

lemma blank_prefix_rejected_witness:
  "GROQ_API_KEY (example_env (Reply rate_limited)) \<noteq> [] \<and>
   is_dict (request_data long_blank_with_question) \<and>
   selection_of (request_data long_blank_with_question) = JStr long_blank_selection \<and>
   list_all isspace (take 3000 long_blank_selection) \<and>
   \<not> list_all isspace long_blank_selection \<and>
   is_str (question_of (request_data long_blank_with_question)) \<and>
   branch_summary (example_env (Reply rate_limited)) POST long_blank_with_question
     = ([], Returned (Response_json 400 (error_json (JStr (lit ''selection required''))))) \<and>
   branch (example_env (Reply rate_limited)) POST long_blank_with_question
     = ([], Returned (Response_json 400 (error_json (JStr (lit ''selection required'')))))"
proof -
  note d = request_data_dict [OF long_blank_fields(1)]
  show ?thesis
    using blank_prefix_rejected [of "example_env (Reply rate_limited)" long_blank_with_question
        long_blank_selection]
      long_blank_fields long_blank_facts example_key [of "Reply rate_limited"]
    by (simp add: d bad_request_def is_str_def)
qed

text \<open>
  Claim C10. A request whose selection has only whitespace in its first 3000
  characters is to be refused with the blank-selection error, also when other
  characters follow, and \<open>branch_summary\<close> does so. \<open>branch\<close> does not on every
  such request: with 3000 spaces followed by \<open>x\<close> as selection and \<open>true\<close> as
  question, \<open>question.strip()\<close> raises \<open>AttributeError\<close> before the selection is
  tested, where \<open>branch_summary\<close> answers 400 on the same body.
\<close>

theorem blank_prefix_failing_input:
  "selection_of (request_data long_blank_with_flag) = JStr long_blank_selection \<and>
   list_all isspace (take 3000 long_blank_selection) \<and>
   \<not> list_all isspace long_blank_selection \<and>
   branch (example_env (Reply rate_limited)) POST long_blank_with_flag = ([], Raised AttributeError) \<and>
   branch_summary (example_env (Reply rate_limited)) POST long_blank_with_flag
     = ([], Returned (Response_json 400 (error_json (JStr (lit ''selection required'')))))"
proof -
  note d = request_data_dict [OF long_blank_fields(4)]
  have "branch_messages long_blank_with_flag = Inl AttributeError"
    using branch_messages_selection [OF long_blank_fields(4,5)]
    by (simp add: long_blank_fields)
  then have b: "branch (example_env (Reply rate_limited)) POST long_blank_with_flag
      = ([], Raised AttributeError)"
    by (simp add: branch_def example_key d)
  have c: "branch_summary (example_env (Reply rate_limited)) POST long_blank_with_flag
     = ([], Returned (Response_json 400 (error_json (JStr (lit ''selection required'')))))"
    using selection_required_summary [OF example_key, of long_blank_with_flag
        long_blank_selection "Reply rate_limited"] long_blank_fields long_blank_facts
    by (simp add: d bad_request_def)
  show ?thesis
    using b c long_blank_fields long_blank_facts by (simp add: d)
qed

section \<open>Assembling the messages\<close>

lemma for_append_total:
  "\<forall>x\<in>set xs. body x = Inr (g x) \<Longrightarrow> for_append body xs = Inr (concat (map g xs))"
  by (induction xs) simp_all

lemma concat_map_if: "concat (map (\<lambda>x. if P x then [f x] else []) xs) = map f (filter P xs)"
  by (induction xs) simp_all

lemma history_entry_spec:
  "history_entry m = (if well_formed_entry m then [entry_message m] else [])"
  by (cases m)
     (auto simp: history_entry_def well_formed_entry_def entry_message_def field_def
        split: option.splits)

lemma history_messages_spec:
  "concat (map history_entry hs) = map entry_message (filter well_formed_entry hs)"
  by (induction hs) (simp_all add: history_entry_spec)

lemma branch_turn_spec:
  "is_dict t \<Longrightarrow> branch_turn t = Inr (if well_formed_turn t then [forwarded_turn t] else [])"
  by (cases t)
     (auto simp: is_dict_def branch_turn_def well_formed_turn_def forwarded_turn_def field_def
        Let_def split: option.splits)

lemma summary_turn_spec:
  "is_dict t \<Longrightarrow> summary_turn t = Inr (if well_formed_turn t then [reframed_turn t] else [])"
  by (cases t)
     (auto simp: is_dict_def summary_turn_def well_formed_turn_def reframed_turn_def field_def
        Let_def is_str_def str_of_def split: option.splits json.splits)

lemma branch_turns_spec:
  "list_all is_dict ts \<Longrightarrow>
     for_append branch_turn ts = Inr (map forwarded_turn (filter well_formed_turn ts))"
  using for_append_total [of ts branch_turn "\<lambda>t. if well_formed_turn t then [forwarded_turn t] else []"]
  by (simp add: list_all_iff branch_turn_spec concat_map_if)

lemma summary_turns_spec:
  "list_all is_dict ts \<Longrightarrow>
     for_append summary_turn ts = Inr (map reframed_turn (filter well_formed_turn ts))"
  using for_append_total [of ts summary_turn "\<lambda>t. if well_formed_turn t then [reframed_turn t] else []"]
  by (simp add: list_all_iff summary_turn_spec concat_map_if)

lemma generate_example:
  "generate example_loads [hi_frame, there_frame, done_frame]
     = [ascii_bytes ''Hi'', ascii_bytes '' there'']"
  by (simp add: generate_Cons done_frames emitted_def starts_frames chunk_examples
        del: generate.simps)

lemma stream_example:
  "stream_completion (example_env (Reply ok_reply)) messages
     = ([upstream_request (example_env (Reply ok_reply)) messages],
        Returned (Response_stream [ascii_bytes ''Hi'', ascii_bytes '' there'']))"
  using generate_example
  by (simp add: stream_completion_def Let_def example_env_def ok_reply_def)

lemma turn_facts:
  "is_dict user_turn" "well_formed_turn user_turn"
  "forwarded_turn user_turn = message (str ''user'') (str ''hi'')"
  "reframed_turn user_turn = message (str ''user'') (str ''User: hi'')"
  "is_dict assistant_turn" "well_formed_turn assistant_turn"
  "reframed_turn assistant_turn = message (str ''user'') (str ''Assistant: yo'')"
  by (simp_all add: user_turn_def assistant_turn_def str_def is_dict_def well_formed_turn_def
        forwarded_turn_def reframed_turn_def field_def py_or_def role_ok_def is_str_def str_of_def)
     (simp_all add: lit_def)

lemma not_blank_x:
  "\<not> list_all isspace (take 3000 (lit ''x''))" "take 3000 (lit ''x'') = lit ''x''"
  "\<not> list_all isspace (lit ''x'')"
  by (simp_all add: lit_def isspace_def)

text \<open>
  Claim C2, amended. For a POST branch request with the credential configured, a JSON
  object as body, a selection that is not blank in its first 3000 characters, a question
  that is missing or a string, an iterable history and popup turns that are missing or a
  list of JSON objects: when popup turns are given the request is relayed with the
  history, the selection context and the well-formed turns, whether or not a question is
  given too (the question is then not used); without popup turns a non-blank question
  is relayed, stripped, as the last user message; with neither, the answer is status 400
  with the message \<open>Provide either popup_turns or question\<close>.
\<close>

theorem branch_question_or_turns:
  assumes "GROQ_API_KEY env \<noteq> []" and "is_dict (request_data body)"
    and "selection_of (request_data body) = JStr sel" and "\<not> list_all isspace (take 3000 sel)"
    and "question_of (request_data body) = JStr q"
    and "py_iter (history_of (request_data body)) = Inr hs"
    and "popup_turns_of (request_data body) = JList ts" and "list_all is_dict ts"
  shows "branch env POST body =
     (if ts \<noteq> [] then
        stream_completion env (JList
          (map entry_message (filter well_formed_entry hs)
           @ selection_context (take 3000 sel)
           # map forwarded_turn (filter well_formed_turn ts)))
      else if \<not> list_all isspace q then
        stream_completion env (JList
          (map entry_message (filter well_formed_entry hs)
           @ selection_context (take 3000 sel)
           # [message (JStr (lit ''user'')) (JStr (strip q))]))
      else ([], Returned (bad_request ''Provide either popup_turns or question'')))"
  using assms
  by (simp add: branch_def branch_messages_selection branch_turns_spec history_messages_spec
        strip_empty_iff)

lemma both_fields:
  "is_dict both_provided"
  "selection_of both_provided = JStr (lit ''x'')"
  "question_of both_provided = JStr (lit ''q'')"
  "py_iter (history_of both_provided) = Inr []"
  "popup_turns_of both_provided = JList [user_turn]"
  by (simp_all add: both_provided_def str_def py_or_def selection_of_def question_of_def
        history_of_def popup_turns_of_def field_def is_dict_def)
     (simp_all add: lit_def)

theorem branch_question_or_turns_witness:
  "GROQ_API_KEY (example_env (Reply ok_reply)) \<noteq> [] \<and>
   is_dict (request_data both_provided) \<and>
   selection_of (request_data both_provided) = JStr (lit ''x'') \<and>
   \<not> list_all isspace (take 3000 (lit ''x'')) \<and>
   question_of (request_data both_provided) = JStr (lit ''q'') \<and>
   py_iter (history_of (request_data both_provided)) = Inr [] \<and>
   popup_turns_of (request_data both_provided) = JList [user_turn] \<and>
   list_all is_dict [user_turn] \<and>
   branch (example_env (Reply ok_reply)) POST both_provided
     = stream_completion (example_env (Reply ok_reply))
         (JList [selection_context (lit ''x''), message (str ''user'') (str ''hi'')])"
proof -
  note d = request_data_dict [OF both_fields(1)]
  show ?thesis
    using branch_question_or_turns [of "example_env (Reply ok_reply)" both_provided "lit ''x''"
        "lit ''q''" "[]" "[user_turn]"]
      both_fields not_blank_x example_key [of "Reply ok_reply"]
    by (simp add: d turn_facts)
qed

text \<open>
  As the specification words claim C2, a request that gives both a question and popup
  turns fails. It is processed: the upstream request is made with the selection context
  and the popup turn, and the answer is the stream.
\<close>

theorem branch_both_counterexample:
  "selection_of (request_data both_provided) = JStr (lit ''x'') \<and>
   question_of (request_data both_provided) = JStr (lit ''q'') \<and>
   popup_turns_of (request_data both_provided) = JList [user_turn] \<and>
   branch (example_env (Reply ok_reply)) POST both_provided
     = ([upstream_request (example_env (Reply ok_reply))
           (JList [selection_context (lit ''x''), message (str ''user'') (str ''hi'')])],
        Returned (Response_stream [ascii_bytes ''Hi'', ascii_bytes '' there'']))"
proof -
  note d = request_data_dict [OF both_fields(1)]
  have t: "for_append branch_turn [user_turn] = Inr [message (str ''user'') (str ''hi'')]"
    by (simp add: branch_turn_spec turn_facts)
  have m: "branch_messages both_provided
        = Inr (Inr [selection_context (lit ''x''), message (str ''user'') (str ''hi'')])"
    using branch_messages_selection [OF both_fields(1,2)] t
    by (simp add: both_fields not_blank_x del: for_append.simps)
  show ?thesis
    using m both_fields example_key [of "Reply ok_reply"]
    by (simp add: branch_def d stream_example)
qed

text \<open>
  Claim C9, amended. For a POST branch-summary request with the credential configured,
  a JSON object as body, a selection that is not blank in its first 3000 characters, an
  iterable history and popup turns that are missing or a list of JSON objects, the list
  sent upstream is: the well-formed history entries in order, the selection context,
  then, only if there are popup turns, the transcript header and every well-formed turn
  re-framed with its \<open>User:\<close> or \<open>Assistant:\<close> prefix under the role user, then
  the fixed instruction. With no popup turns the list is the history, the selection
  context and the instruction.
\<close>

theorem summary_message_list:
  assumes "GROQ_API_KEY env \<noteq> []" and "is_dict (request_data body)"
    and "selection_of (request_data body) = JStr sel" and "\<not> list_all isspace (take 3000 sel)"
    and "py_iter (history_of (request_data body)) = Inr hs"
    and "popup_turns_of (request_data body) = JList ts" and "list_all is_dict ts"
  shows "summary_messages (request_data body) = Inr (Inr (summary_spec hs (take 3000 sel) ts)) \<and>
         branch_summary env POST body
           = stream_completion env (JList (summary_spec hs (take 3000 sel) ts)) \<and>
         summary_spec hs (take 3000 sel) []
           = map entry_message (filter well_formed_entry hs)
             @ [selection_context (take 3000 sel),
                message (JStr (lit ''user'')) (JStr summary_instruction)]"
  using assms
  by (simp add: branch_summary_def summary_messages_selection summary_turns_spec
        history_messages_spec summary_spec_def)

lemma summary_fields:
  "is_dict summary_request"
  "selection_of summary_request = JStr (lit ''x'')"
  "py_iter (history_of summary_request) = Inr []"
  "popup_turns_of summary_request = JList [user_turn, assistant_turn]"
  "is_dict number_turn_request"
  "selection_of number_turn_request = JStr (lit ''x'')"
  "py_iter (history_of number_turn_request) = Inr []"
  "popup_turns_of number_turn_request = JList [JInt 5]"
  by (simp_all add: summary_request_def number_turn_request_def str_def py_or_def selection_of_def
        history_of_def popup_turns_of_def field_def is_dict_def)
     (simp_all add: lit_def)

theorem summary_message_list_witness:
  "GROQ_API_KEY (example_env (Reply ok_reply)) \<noteq> [] \<and>
   is_dict (request_data summary_request) \<and>
   selection_of (request_data summary_request) = JStr (lit ''x'') \<and>
   \<not> list_all isspace (take 3000 (lit ''x'')) \<and>
   py_iter (history_of (request_data summary_request)) = Inr [] \<and>
   popup_turns_of (request_data summary_request) = JList [user_turn, assistant_turn] \<and>
   list_all is_dict [user_turn, assistant_turn] \<and>
   summary_messages (request_data summary_request)
     = Inr (Inr [selection_context (lit ''x''), transcript_header,
                 message (str ''user'') (str ''User: hi''),
                 message (str ''user'') (str ''Assistant: yo''),
                 message (str ''user'') (JStr summary_instruction)]) \<and>
   branch_summary (example_env (Reply ok_reply)) POST summary_request
     = ([upstream_request (example_env (Reply ok_reply))
           (JList [selection_context (lit ''x''), transcript_header,
                   message (str ''user'') (str ''User: hi''),
                   message (str ''user'') (str ''Assistant: yo''),
                   message (str ''user'') (JStr summary_instruction)])],
        Returned (Response_stream [ascii_bytes ''Hi'', ascii_bytes '' there'']))"
proof -
  note d = request_data_dict [OF summary_fields(1)]
  show ?thesis
    using summary_message_list [of "example_env (Reply ok_reply)" summary_request "lit ''x''"
        "[]" "[user_turn, assistant_turn]"]
      summary_fields not_blank_x example_key [of "Reply ok_reply"]
    by (simp add: d turn_facts summary_spec_def stream_example str_def)
qed

text \<open>
  As claim C9 is worded, the list is assembled for every request with a non-blank
  selection, from the well-formed turns. A selection of 3000 spaces followed by
  \<open>x\<close> is not blank, and the request is refused with status 400, since the
  selection is cut before it is checked. And a popup turn that is not an object is not
  skipped: with the number 5 as only turn, \<open>t.get\<close> raises \<open>AttributeError\<close> and
  nothing is sent.
\<close>

theorem summary_message_list_counterexample:
  "selection_of (request_data long_blank_summary_request) = JStr long_blank_selection \<and>
   \<not> list_all isspace long_blank_selection \<and>
   branch_summary (example_env (Reply ok_reply)) POST long_blank_summary_request
     = ([], Returned (Response_json 400 (error_json (JStr (lit ''selection required''))))) \<and>
   selection_of (request_data number_turn_request) = JStr (lit ''x'') \<and>
   \<not> list_all isspace (lit ''x'') \<and>
   popup_turns_of (request_data number_turn_request) = JList [JInt 5] \<and>
   branch_summary (example_env (Reply ok_reply)) POST number_turn_request
     = ([], Raised AttributeError)"
proof -
  have b: "is_dict long_blank_summary_request"
    "selection_of long_blank_summary_request = JStr long_blank_selection"
    by (simp_all add: long_blank_summary_request_def is_dict_def selection_of_def field_def
          py_or_def long_blank_facts)
  note c = request_data_dict [OF b(1)]
  have r: "branch_summary (example_env (Reply ok_reply)) POST long_blank_summary_request
     = ([], Returned (Response_json 400 (error_json (JStr (lit ''selection required'')))))"
    using selection_required_summary [OF example_key, of long_blank_summary_request
        long_blank_selection "Reply ok_reply"] b long_blank_facts
    by (simp add: c bad_request_def)
  note d = request_data_dict [OF summary_fields(5)]
  have t: "for_append summary_turn [JInt 5] = Inl AttributeError"
    by (simp add: summary_turn_def)
  have m: "summary_messages number_turn_request = Inl AttributeError"
    using summary_messages_selection [OF summary_fields(5,6)] t
    by (simp add: summary_fields not_blank_x del: for_append.simps)
  have n: "branch_summary (example_env (Reply ok_reply)) POST number_turn_request
     = ([], Raised AttributeError)"
    using m example_key [of "Reply ok_reply"] by (simp add: branch_summary_def d)
  show ?thesis
    using r n b summary_fields not_blank_x long_blank_facts by (simp add: c d)
qed

section \<open>What is assembled\<close>

lemma for_append_all:
  assumes "\<And>x ys. body x = Inr ys \<Longrightarrow> list_all P ys" and "for_append body xs = Inr zs"
  shows "list_all P zs"
  using assms(2)
proof (induction xs arbitrary: zs)
  case Nil
  then show ?case by simp
next
  case (Cons x xs)
  then show ?case
    by (auto split: sum.splits dest: assms(1))
qed

lemma field_message: "field (message r c) ''role'' = r"
  by (simp add: field_def message_def)

lemma role_ok_user: "role_ok (JStr (lit ''user''))"
  by (simp add: role_ok_def)

lemma branch_turn_roles:
  "branch_turn t = Inr ms \<Longrightarrow> list_all (\<lambda>m. role_ok (field m ''role'')) ms"
  by (cases t) (auto simp: branch_turn_def field_message Let_def split: if_splits)

lemma summary_turn_roles:
  "summary_turn t = Inr ms \<Longrightarrow> list_all (\<lambda>m. role_ok (field m ''role'')) ms"
  by (cases t)
     (auto simp: summary_turn_def field_message role_ok_user Let_def split: if_splits json.splits)

lemma branch_turns_roles:
  "for_append branch_turn ts = Inr turns \<Longrightarrow> list_all (\<lambda>m. role_ok (field m ''role'')) turns"
  by (rule for_append_all [of branch_turn _ ts]) (rule branch_turn_roles)

lemma summary_turns_roles:
  "for_append summary_turn ts = Inr turns \<Longrightarrow> list_all (\<lambda>m. role_ok (field m ''role'')) turns"
  by (rule for_append_all [of summary_turn _ ts]) (rule summary_turn_roles)

lemma not_dict_raises:
  "\<not> is_dict data \<Longrightarrow>
     branch_messages data = Inl AttributeError \<and> summary_messages data = Inl AttributeError"
  by (cases data) (simp_all add: is_dict_def branch_messages_def summary_messages_def)

lemma not_str_selection_raises:
  assumes "is_dict data" and "\<not> is_str (selection_of data)"
  shows "(\<exists>e. branch_messages data = Inl e) \<and> (\<exists>e. summary_messages data = Inl e)"
proof -
  obtain kvs where d: "data = JDict kvs"
    using assms(1) by (cases data) (simp_all add: is_dict_def)
  show ?thesis
    using assms(2) unfolding d
    by (cases "selection_of (JDict kvs)")
       (auto simp: branch_messages_def summary_messages_def selection_of_def field_def is_str_def
          bind_exn_def Let_def split: sum.splits)
qed

lemma selection_is_str:
  assumes "branch_messages data = Inr (Inr msgs) \<or> summary_messages data = Inr (Inr msgs)"
  shows "is_dict data \<and> is_str (selection_of data)"
  using assms not_dict_raises [of data] not_str_selection_raises [of data]
  by (cases "is_dict data"; cases "is_str (selection_of data)") auto

lemma branch_messages_assembled:
  assumes "branch_messages data = Inr (Inr msgs)" and "selection_of data = JStr sel"
  shows "\<exists>hs rest. py_iter (history_of data) = Inr hs \<and>
           msgs = concat (map history_entry hs) @ selection_context (take 3000 sel) # rest \<and>
           list_all (\<lambda>m. role_ok (field m ''role'')) rest"
proof -
  have d: "is_dict data"
    using assms(1) selection_is_str by blast
  show ?thesis
    using assms(1) unfolding branch_messages_selection [OF d assms(2)]
    by (auto simp: bind_exn_def field_message role_ok_user
          split: sum.splits if_splits dest: branch_turns_roles)
qed

lemma summary_messages_assembled:
  assumes "summary_messages data = Inr (Inr msgs)" and "selection_of data = JStr sel"
  shows "\<exists>hs rest. py_iter (history_of data) = Inr hs \<and>
           msgs = concat (map history_entry hs) @ selection_context (take 3000 sel) # rest \<and>
           list_all (\<lambda>m. role_ok (field m ''role'')) rest"
proof -
  have d: "is_dict data"
    using assms(1) selection_is_str by blast
  show ?thesis
    using assms(1) unfolding summary_messages_selection [OF d assms(2)]
    by (auto simp: bind_exn_def field_message role_ok_user transcript_header_def
          split: sum.splits if_splits dest: summary_turns_roles)
qed

lemma messages_assembled:
  assumes "branch_messages data = Inr (Inr msgs) \<or> summary_messages data = Inr (Inr msgs)"
    and "selection_of data = JStr sel"
  shows "\<exists>hs rest. py_iter (history_of data) = Inr hs \<and>
           msgs = map entry_message (filter well_formed_entry hs)
                  @ selection_context (take 3000 sel) # rest \<and>
           list_all (\<lambda>m. role_ok (field m ''role'')) rest"
  using assms branch_messages_assembled [of data msgs sel] summary_messages_assembled [of data msgs sel]
  by (auto simp: history_messages_spec)

lemma selection_of_field: "field data ''selection'' = JStr sel \<Longrightarrow> selection_of data = JStr sel"
  by (simp add: selection_of_def py_or_def)

lemma first_3000: "(if 3000 < length sel then take 3000 sel else sel) = take 3000 sel"
  by simp

lemma summary_messages_produced:
  assumes "is_dict data" and "selection_of data = JStr sel"
    and "\<not> list_all isspace (take 3000 sel)"
    and "py_iter (history_of data) = Inr hs"
    and "popup_turns_of data = JList ts" and "list_all is_dict ts"
  shows "summary_messages data =
     Inr (Inr (map entry_message (filter well_formed_entry hs)
               @ selection_context (take 3000 sel)
               # (if ts = [] then [] else transcript_header # map reframed_turn (filter well_formed_turn ts))
               @ [message (JStr (lit ''user'')) (JStr summary_instruction)]))"
  using assms(3-6)
  by (simp add: summary_messages_selection [OF assms(1,2)] summary_turns_spec
        history_messages_spec)

lemma branch_messages_produced:
  assumes "is_dict data" and "selection_of data = JStr sel"
    and "\<not> list_all isspace (take 3000 sel)"
    and "py_iter (history_of data) = Inr hs"
    and "popup_turns_of data = JList ts" and "list_all is_dict ts"
    and "question_of data = JStr q" and "ts \<noteq> [] \<or> \<not> list_all isspace q"
  shows "branch_messages data =
     Inr (Inr (map entry_message (filter well_formed_entry hs)
               @ selection_context (take 3000 sel)
               # (if ts \<noteq> [] then map forwarded_turn (filter well_formed_turn ts)
                  else [message (JStr (lit ''user'')) (JStr (strip q))])))"
  using assms(3-8)
  by (auto simp: branch_messages_selection [OF assms(1,2)] branch_turns_spec
        history_messages_spec strip_empty_iff)

text \<open>
  Claim C8. Both handlers embed the selection cut to its first 3000 characters. For a
  request that is a JSON object with a string selection that is not blank in its first
  3000 characters, an iterable history and popup turns that are missing or a list of
  JSON objects, \<open>branch_summary\<close> assembles a list in which the message after the
  history entries is the user message \<open>Selected Context:\<close>, a line feed, and the
  first 3000 characters of the selection when it is longer than 3000, the selection
  unchanged otherwise; \<open>branch\<close> assembles such a list too when the question is
  missing or a string and popup turns or a non-blank question are given. And whenever
  either handler assembles a list from a request whose selection is a string, that
  message stands after the history entries.
\<close>

theorem selection_truncated:
  "(is_dict data \<and> field data ''selection'' = JStr sel \<and>
    \<not> list_all isspace (take 3000 sel) \<and> py_iter (history_of data) = Inr hs \<and>
    popup_turns_of data = JList ts \<and> list_all is_dict ts
      \<longrightarrow> (\<exists>rest. summary_messages data =
             Inr (Inr (map entry_message (filter well_formed_entry hs)
                       @ message (JStr (lit ''user''))
                           (JStr (lit ''Selected Context:'' @ [10]
                                  @ (if 3000 < length sel then take 3000 sel else sel)))
                       # rest))) \<and>
          (question_of data = JStr q \<and> (ts \<noteq> [] \<or> \<not> list_all isspace q)
             \<longrightarrow> (\<exists>rest. branch_messages data =
                    Inr (Inr (map entry_message (filter well_formed_entry hs)
                              @ message (JStr (lit ''user''))
                                  (JStr (lit ''Selected Context:'' @ [10]
                                         @ (if 3000 < length sel then take 3000 sel else sel)))
                              # rest))))) \<and>
   ((branch_messages d = Inr (Inr msgs) \<or> summary_messages d = Inr (Inr msgs)) \<and>
    field d ''selection'' = JStr s
      \<longrightarrow> (\<exists>hs rest. py_iter (history_of d) = Inr hs \<and>
             msgs = map entry_message (filter well_formed_entry hs)
                    @ message (JStr (lit ''user''))
                        (JStr (lit ''Selected Context:'' @ [10]
                               @ (if 3000 < length s then take 3000 s else s)))
                    # rest))"
proof (intro conjI impI)
  assume a: "is_dict data \<and> field data ''selection'' = JStr sel \<and>
    \<not> list_all isspace (take 3000 sel) \<and> py_iter (history_of data) = Inr hs \<and>
    popup_turns_of data = JList ts \<and> list_all is_dict ts"
  then have s: "selection_of data = JStr sel"
    by (simp add: selection_of_field)
  show "\<exists>rest. summary_messages data =
             Inr (Inr (map entry_message (filter well_formed_entry hs)
                       @ message (JStr (lit ''user''))
                           (JStr (lit ''Selected Context:'' @ [10]
                                  @ (if 3000 < length sel then take 3000 sel else sel)))
                       # rest))"
    using a summary_messages_produced [of data sel hs ts] s
    by (simp only: first_3000 selection_context_def) blast
  assume b: "question_of data = JStr q \<and> (ts \<noteq> [] \<or> \<not> list_all isspace q)"
  show "\<exists>rest. branch_messages data =
                    Inr (Inr (map entry_message (filter well_formed_entry hs)
                              @ message (JStr (lit ''user''))
                                  (JStr (lit ''Selected Context:'' @ [10]
                                         @ (if 3000 < length sel then take 3000 sel else sel)))
                              # rest))"
    using a b branch_messages_produced [of data sel hs ts q] s
    by (simp only: first_3000 selection_context_def) blast
next
  assume c: "(branch_messages d = Inr (Inr msgs) \<or> summary_messages d = Inr (Inr msgs)) \<and>
    field d ''selection'' = JStr s"
  then have "selection_of d = JStr s"
    by (simp add: selection_of_field)
  then obtain hs rest where "py_iter (history_of d) = Inr hs"
    and "msgs = map entry_message (filter well_formed_entry hs)
                  @ selection_context (take 3000 s) # rest"
    using messages_assembled [of d msgs s] c by blast
  then show "\<exists>hs rest. py_iter (history_of d) = Inr hs \<and>
             msgs = map entry_message (filter well_formed_entry hs)
                    @ message (JStr (lit ''user''))
                        (JStr (lit ''Selected Context:'' @ [10]
                               @ (if 3000 < length s then take 3000 s else s)))
                    # rest"
    by (simp only: first_3000 selection_context_def) blast
qed

lemma long_selection_facts:
  "take 3000 long_selection = replicate 3000 0x61"
  "\<not> list_all isspace (take 3000 long_selection)"
  "long_selection \<noteq> []"
  "length long_selection = 3004"
  "\<not> list_all isspace (replicate 3000 0x61)"
proof -
  show t: "take 3000 long_selection = replicate 3000 0x61"
    unfolding long_selection_def by (rule take_replicate_append)
  have "\<not> isspace 0x61" by (simp add: isspace_def)
  then show r: "\<not> list_all isspace (replicate 3000 0x61)"
    by (simp add: list_all_iff)
  then show "\<not> list_all isspace (take 3000 long_selection)"
    unfolding t .
  show "long_selection \<noteq> []"
    unfolding long_selection_def by (simp add: lit_def)
  show "length long_selection = 3004"
    unfolding long_selection_def by (simp add: lit_def)
qed

lemma long_selection_fields:
  "is_dict long_selection_request"
  "field long_selection_request ''selection'' = JStr long_selection"
  "question_of long_selection_request = JStr (lit ''q'')"
  "py_iter (history_of long_selection_request) = Inr []"
  "\<not> truthy (popup_turns_of long_selection_request)"
  by (simp_all add: long_selection_request_def is_dict_def question_of_def history_of_def
        popup_turns_of_def field_def py_or_def str_def)
     (simp_all add: lit_def)

lemma strip_q: "strip (lit ''q'') = lit ''q''" "lit ''q'' \<noteq> []"
  by (simp_all add: strip_def lit_def isspace_def)

lemma long_selection_messages:
  "branch_messages long_selection_request
     = Inr (Inr [selection_context (replicate 3000 0x61), message (str ''user'') (str ''q'')])"
  using branch_messages_selection [OF long_selection_fields(1)
      selection_of_field [OF long_selection_fields(2)]]
  by (simp add: long_selection_fields long_selection_facts strip_q str_def)

lemma long_selection_more:
  "popup_turns_of long_selection_request = JList []"
  "\<not> list_all isspace (lit ''q'')"
  "3000 < length long_selection"
  by (simp_all add: long_selection_request_def popup_turns_of_def field_def py_or_def str_def
        long_selection_facts)
     (simp_all add: lit_def isspace_def)

lemma summary_request_selection: "field summary_request ''selection'' = JStr (lit ''x'')"
  by (simp add: summary_request_def field_def str_def)

theorem selection_truncated_witness:
  "is_dict long_selection_request \<and>
   field long_selection_request ''selection'' = JStr long_selection \<and>
   3000 < length long_selection \<and>
   \<not> list_all isspace (take 3000 long_selection) \<and>
   py_iter (history_of long_selection_request) = Inr [] \<and>
   popup_turns_of long_selection_request = JList [] \<and>
   list_all is_dict [] \<and>
   question_of long_selection_request = JStr (lit ''q'') \<and>
   \<not> list_all isspace (lit ''q'') \<and>
   summary_messages long_selection_request
     = Inr (Inr [message (JStr (lit ''user''))
                   (JStr (lit ''Selected Context:'' @ [10] @ replicate 3000 0x61)),
                 message (JStr (lit ''user'')) (JStr summary_instruction)]) \<and>
   branch_messages long_selection_request
     = Inr (Inr [message (JStr (lit ''user''))
                   (JStr (lit ''Selected Context:'' @ [10] @ replicate 3000 0x61)),
                 message (JStr (lit ''user'')) (JStr (lit ''q''))]) \<and>
   field summary_request ''selection'' = JStr (lit ''x'') \<and>
   summary_messages summary_request
     = Inr (Inr [message (JStr (lit ''user'')) (JStr (lit ''Selected Context:'' @ [10] @ lit ''x'')),
                 transcript_header,
                 message (JStr (lit ''user'')) (JStr (lit ''User: hi'')),
                 message (JStr (lit ''user'')) (JStr (lit ''Assistant: yo'')),
                 message (JStr (lit ''user'')) (JStr summary_instruction)])"
proof -
  note s = selection_of_field [OF long_selection_fields(2)]
  have a: "summary_messages long_selection_request
     = Inr (Inr [message (JStr (lit ''user''))
                   (JStr (lit ''Selected Context:'' @ [10] @ replicate 3000 0x61)),
                 message (JStr (lit ''user'')) (JStr summary_instruction)])"
    using summary_messages_produced [OF long_selection_fields(1) s long_selection_facts(2)
        long_selection_fields(4) long_selection_more(1)]
    by (simp add: long_selection_facts selection_context_def)
  have b: "branch_messages long_selection_request
     = Inr (Inr [message (JStr (lit ''user''))
                   (JStr (lit ''Selected Context:'' @ [10] @ replicate 3000 0x61)),
                 message (JStr (lit ''user'')) (JStr (lit ''q''))])"
    using long_selection_messages by (simp add: selection_context_def str_def)
  have c: "summary_messages summary_request
     = Inr (Inr [message (JStr (lit ''user'')) (JStr (lit ''Selected Context:'' @ [10] @ lit ''x'')),
                 transcript_header,
                 message (JStr (lit ''user'')) (JStr (lit ''User: hi'')),
                 message (JStr (lit ''user'')) (JStr (lit ''Assistant: yo'')),
                 message (JStr (lit ''user'')) (JStr summary_instruction)])"
    using summary_messages_produced [OF summary_fields(1,2) not_blank_x(1) summary_fields(3,4)]
    by (simp add: turn_facts not_blank_x selection_context_def str_def)
  show ?thesis
    using selection_truncated [of long_selection_request long_selection "[]" "[]" "lit ''q''"
        long_selection_request
        "[message (JStr (lit ''user''))
                   (JStr (lit ''Selected Context:'' @ [10] @ replicate 3000 0x61)),
                 message (JStr (lit ''user'')) (JStr (lit ''q''))]" long_selection]
      a b c long_selection_fields long_selection_facts long_selection_more
      summary_request_selection
    by simp
qed

lemma chat_forwards:
  assumes "GROQ_API_KEY env \<noteq> []" and "map_of kvs (lit ''messages'') = Some v"
  shows "chat env POST (JDict kvs) = stream_completion env v"
  using assms by (simp add: chat_def request_data_dict is_dict_def)

text \<open>
  Claim C3, amended. Every message that \<open>branch\<close> or \<open>branch_summary\<close> sends
  upstream has the role user or assistant, or is a well-formed history entry of the
  request, copied with the role the caller gave it; and direct chat sends the caller's
  \<open>messages\<close> as they are. The handlers add no message with another role themselves,
  and they do not filter the roles of the history.
\<close>

theorem forwarded_roles:
  "((branch_messages data = Inr (Inr msgs) \<or> summary_messages data = Inr (Inr msgs)) \<and>
    m \<in> set msgs
      \<longrightarrow> role_ok (field m ''role'') \<or>
          (\<exists>hs h. py_iter (history_of data) = Inr hs \<and> h \<in> set hs \<and> well_formed_entry h \<and>
                  m = entry_message h)) \<and>
   (GROQ_API_KEY env \<noteq> [] \<and> map_of kvs (lit ''messages'') = Some v
      \<longrightarrow> chat env POST (JDict kvs) = stream_completion env v)"
proof (intro conjI impI)
  assume a: "(branch_messages data = Inr (Inr msgs) \<or> summary_messages data = Inr (Inr msgs)) \<and>
    m \<in> set msgs"
  then have "is_str (selection_of data)"
    using selection_is_str by blast
  then obtain sel where s: "selection_of data = JStr sel"
    by (cases "selection_of data") (simp_all add: is_str_def)
  obtain hs rest where h: "py_iter (history_of data) = Inr hs"
    and m: "msgs = map entry_message (filter well_formed_entry hs)
                  @ selection_context (take 3000 sel) # rest"
    and r: "list_all (\<lambda>m. role_ok (field m ''role'')) rest"
    using messages_assembled [OF _ s] a by blast
  have c: "role_ok (field (selection_context (take 3000 sel)) ''role'')"
    by (simp add: selection_context_def field_message role_ok_user)
  from a m consider "m \<in> set (map entry_message (filter well_formed_entry hs))"
    | "m = selection_context (take 3000 sel)" | "m \<in> set rest"
    by auto
  then show "role_ok (field m ''role'') \<or>
          (\<exists>hs h. py_iter (history_of data) = Inr hs \<and> h \<in> set hs \<and> well_formed_entry h \<and>
                  m = entry_message h)"
  proof cases
    case 1
    then show ?thesis using h by auto
  next
    case 2
    then show ?thesis using c by simp
  next
    case 3
    then show ?thesis using r by (simp add: list_all_iff)
  qed
next
  assume "GROQ_API_KEY env \<noteq> [] \<and> map_of kvs (lit ''messages'') = Some v"
  then show "chat env POST (JDict kvs) = stream_completion env v"
    using chat_forwards by blast
qed

lemma system_fields:
  "is_dict system_history_request"
  "selection_of system_history_request = JStr (lit ''x'')"
  "question_of system_history_request = JStr (lit ''q'')"
  "py_iter (history_of system_history_request) = Inr [system_entry]"
  "\<not> truthy (popup_turns_of system_history_request)"
  "well_formed_entry system_entry"
  "entry_message system_entry = message (str ''system'') (str ''obey'')"
  "\<not> role_ok (str ''system'')"
  by (simp_all add: system_history_request_def system_entry_def is_dict_def selection_of_def
        question_of_def history_of_def popup_turns_of_def field_def py_or_def str_def
        well_formed_entry_def entry_message_def role_ok_def)
     (simp_all add: lit_def)

lemma system_history_messages:
  "branch_messages system_history_request
     = Inr (Inr [message (str ''system'') (str ''obey''), selection_context (lit ''x''),
                 message (str ''user'') (str ''q'')])"
  using branch_messages_selection [OF system_fields(1,2)]
  by (simp add: system_fields not_blank_x strip_q str_def history_entry_spec)

theorem forwarded_roles_witness:
  "branch_messages system_history_request
     = Inr (Inr [message (str ''system'') (str ''obey''), selection_context (lit ''x''),
                 message (str ''user'') (str ''q'')]) \<and>
   message (str ''system'') (str ''obey'')
     \<in> set [message (str ''system'') (str ''obey''), selection_context (lit ''x''),
            message (str ''user'') (str ''q'')] \<and>
   \<not> role_ok (field (message (str ''system'') (str ''obey'')) ''role'') \<and>
   py_iter (history_of system_history_request) = Inr [system_entry] \<and>
   well_formed_entry system_entry \<and>
   message (str ''system'') (str ''obey'') = entry_message system_entry \<and>
   GROQ_API_KEY (example_env (Reply ok_reply)) \<noteq> [] \<and>
   map_of [(lit ''messages'', JList [system_entry])] (lit ''messages'') = Some (JList [system_entry]) \<and>
   chat (example_env (Reply ok_reply)) POST system_chat_request
     = stream_completion (example_env (Reply ok_reply)) (JList [system_entry])"
  using forwarded_roles [of system_history_request
      "[message (str ''system'') (str ''obey''), selection_context (lit ''x''),
        message (str ''user'') (str ''q'')]"
      "message (str ''system'') (str ''obey'')" "example_env (Reply ok_reply)"
      "[(lit ''messages'', JList [system_entry])]" "JList [system_entry]"]
    system_history_messages system_fields example_key [of "Reply ok_reply"]
  by (simp add: field_message system_chat_request_def)

text \<open>
  As the specification words claim C3, no message with the role system is ever sent,
  whatever the history holds. A history entry with the role system is sent upstream
  with that role.
\<close>

theorem forwarded_roles_counterexample:
  "py_iter (history_of (request_data system_history_request)) = Inr [system_entry] \<and>
   branch (example_env (Reply ok_reply)) POST system_history_request
     = ([upstream_request (example_env (Reply ok_reply))
           (JList [message (str ''system'') (str ''obey''), selection_context (lit ''x''),
                   message (str ''user'') (str ''q'')])],
        Returned (Response_stream [ascii_bytes ''Hi'', ascii_bytes '' there''])) \<and>
   field (message (str ''system'') (str ''obey'')) ''role'' = str ''system'' \<and>
   \<not> role_ok (str ''system'')"
  using system_history_messages system_fields example_key [of "Reply ok_reply"]
  by (simp add: branch_def request_data_dict stream_example field_message)

end
